theory Spec2Isabelle
  imports Main
begin

section \<open>Values exchanged with the provider and the HTTP layer\<close>

text \<open>
  \<^verbatim>\<open>aiResponse\<close> in \<^verbatim>\<open>server/routes.ts\<close> is the untyped result of
  \<^verbatim>\<open>JSON.parse\<close>, and \<^verbatim>\<open>req.body\<close> is a parsed JSON body. Both are
  modelled by a datatype of JSON values. JSON numbers are modelled by the integers: the
  columns the numbers end up in are integer columns, and a number with a fractional
  part is not represented. An object is the list of its members in the order of the
  text; \<^verbatim>\<open>JSON.parse\<close> keeps the last member of a repeated key.
\<close>

datatype json =
    JNull
  | JBool bool
  | JNum int
  | JStr string
  | JArr "json list"
  | JObj "(string \<times> json) list"

text \<open>
  Property access \<^verbatim>\<open>v.k\<close> on a value that is not \<^verbatim>\<open>null\<close>: the member of
  an object, \<^verbatim>\<open>undefined\<close> (here \<open>None\<close>) when the object has no such member or the
  value is a primitive or an array. (Only the six member names read by the pipeline are
  ever looked up; none of them is a built-in property of strings or arrays.)
\<close>

fun field :: "json \<Rightarrow> string \<Rightarrow> json option" where
  "field (JObj kvs) k = map_of (rev kvs) k"
| "field v k = None"

datatype error =
    TypeError        \<comment> \<open>property read on \<^verbatim>\<open>null\<close>\<close>
  | SyntaxError      \<comment> \<open>\<^verbatim>\<open>JSON.parse\<close> on text that is not JSON\<close>
  | ProviderError    \<comment> \<open>the provider call rejects\<close>
  | DbError          \<comment> \<open>the database rejects a statement\<close>
  | ZodError         \<comment> \<open>the request body does not match the input schema\<close>

section \<open>Tables of \<^verbatim>\<open>shared/schema.ts\<close>\<close>

text \<open>
  Only the columns that the screening pipeline reads or writes, or that the scenarios
  of the specification mention, are kept; timestamps are left out.
\<close>

record user_row =
  u_id :: int
  email :: string
  role :: string

record job_seeker_profile_row =
  userId :: int
  skills :: "string list option"
  experienceYears :: "int option"
  resumeText :: "string option"

record job_row =
  j_id :: int
  companyId :: int
  title :: string
  description :: string
  requiredSkills :: "string list option"
  minYears :: "int option"

record application_row =
  a_id :: int
  jobId :: int
  seekerId :: int
  a_note :: "string option"

datatype ai_status = Pending | Processing | Complete | Failed

record screening_result =
  sr_id :: int
  applicationId :: int
  rulesScore :: "int option"
  semanticScore :: "int option"
  finalScore :: "int option"
  reasons :: "json option"
  aiSummary :: "string option"
  aiQuestions :: "json option"
  aiStatus :: "ai_status option"

record store =
  users :: "user_row list"
  jobSeekerProfiles :: "job_seeker_profile_row list"
  jobs :: "job_row list"
  applications :: "application_row list"
  screeningResults :: "screening_result list"
  screeningSeq :: int   \<comment> \<open>next value of the \<^verbatim>\<open>serial\<close> key of \<^verbatim>\<open>screening_results\<close>\<close>

section \<open>The storage layer (\<^verbatim>\<open>DatabaseStorage\<close>)\<close>

text \<open>
  \<^verbatim>\<open>Partial<InsertScreeningResult>\<close>: every member may be absent (\<open>None\<close>). The
  members that the pipeline fills from \<^verbatim>\<open>aiResponse\<close> carry whatever JSON value
  the response held, since \<^verbatim>\<open>aiResponse\<close> is untyped.
\<close>

record screening_update =
  u_applicationId :: "int option"
  u_rulesScore :: "json option"
  u_semanticScore :: "json option"
  u_finalScore :: "json option"
  u_reasons :: "json option"
  u_aiSummary :: "json option"
  u_aiQuestions :: "json option"
  u_aiStatus :: "ai_status option"

definition noValues :: screening_update where
  "noValues = \<lparr> u_applicationId = None, u_rulesScore = None, u_semanticScore = None,
     u_finalScore = None, u_reasons = None, u_aiSummary = None, u_aiQuestions = None,
     u_aiStatus = None \<rparr>"

text \<open>
  What a column does with a value handed to it. This is the behaviour of the database
  behind \<^verbatim>\<open>db.insert\<close> and \<^verbatim>\<open>db.update\<close>, which is not code of the
  repository; it is fixed here from the column types of the schema: an
  \<^verbatim>\<open>integer\<close> column takes \<^verbatim>\<open>null\<close> and the 32-bit integers, a
  \<^verbatim>\<open>text\<close> column takes \<^verbatim>\<open>null\<close> and strings, a \<^verbatim>\<open>jsonb\<close> column takes
  every JSON value; a value of any other JSON type is taken to make the statement
  fail. PostgreSQL is more liberal than that in two ways, which the model does not
  follow: an integer column also takes a string that spells an integer, and a text
  column stores the text form of a value that is not a string. Both only make more
  runs complete. The results below are stated so that they do not depend on which
  values of a wrong type a column rejects: they speak of members that are absent or
  integers, of members the columns do take, and of runs by the status they end in.
\<close>

fun intColumn :: "json \<Rightarrow> error + int option" where
  "intColumn JNull = Inr None"
| "intColumn (JNum n) =
     (if - 2147483648 \<le> n \<and> n \<le> 2147483647 then Inr (Some n) else Inl DbError)"
| "intColumn v = Inl DbError"

fun textColumn :: "json \<Rightarrow> error + string option" where
  "textColumn JNull = Inr None"
| "textColumn (JStr s) = Inr (Some s)"
| "textColumn v = Inl DbError"

fun jsonbColumn :: "json \<Rightarrow> error + json option" where
  "jsonbColumn JNull = Inr None"
| "jsonbColumn v = Inr (Some v)"

text \<open>
  A member that is absent or \<^verbatim>\<open>undefined\<close> is skipped by the query builder: its
  column is not part of the statement and keeps the value it has.
\<close>

definition accepts :: "(json \<Rightarrow> error + 'a option) \<Rightarrow> json option \<Rightarrow> bool" where
  "accepts col v = (case v of None \<Rightarrow> True
                    | Some x \<Rightarrow> (case col x of Inl e \<Rightarrow> False | Inr y \<Rightarrow> True))"

definition setColumn :: "(json \<Rightarrow> error + 'a option) \<Rightarrow> json option \<Rightarrow> 'a option \<Rightarrow> 'a option" where
  "setColumn col v old = (case v of None \<Rightarrow> old
                          | Some x \<Rightarrow> (case col x of Inl e \<Rightarrow> old | Inr y \<Rightarrow> y))"

definition validValues :: "screening_update \<Rightarrow> bool" where
  "validValues u =
     (accepts intColumn (u_rulesScore u) \<and> accepts intColumn (u_semanticScore u) \<and>
      accepts intColumn (u_finalScore u) \<and> accepts jsonbColumn (u_reasons u) \<and>
      accepts textColumn (u_aiSummary u) \<and> accepts jsonbColumn (u_aiQuestions u))"

definition applyValues :: "screening_update \<Rightarrow> screening_result \<Rightarrow> screening_result" where
  "applyValues u r =
     r \<lparr> applicationId := (case u_applicationId u of None \<Rightarrow> applicationId r | Some a \<Rightarrow> a),
         rulesScore := setColumn intColumn (u_rulesScore u) (rulesScore r),
         semanticScore := setColumn intColumn (u_semanticScore u) (semanticScore r),
         finalScore := setColumn intColumn (u_finalScore u) (finalScore r),
         reasons := setColumn jsonbColumn (u_reasons u) (reasons r),
         aiSummary := setColumn textColumn (u_aiSummary u) (aiSummary r),
         aiQuestions := setColumn jsonbColumn (u_aiQuestions u) (aiQuestions r),
         aiStatus := (case u_aiStatus u of None \<Rightarrow> aiStatus r | Some st \<Rightarrow> Some st) \<rparr>"

text \<open>
  Keys and references are \<^verbatim>\<open>serial\<close> and \<^verbatim>\<open>integer\<close> columns, that is 32-bit
  integers: no row has a key outside this range, and the database rejects a statement
  whose parameter for such a column lies outside it.
\<close>

definition int32 :: "int \<Rightarrow> bool" where
  "int32 n = (- 2147483648 \<le> n \<and> n \<le> 2147483647)"

text \<open>
  \<^verbatim>\<open>getScreeningResult(applicationId)\<close>: the first row of the select, or
  \<^verbatim>\<open>undefined\<close>. The select has no \<^verbatim>\<open>ORDER BY\<close> and
  \<^verbatim>\<open>application_id\<close> has no unique constraint; here the rows come in the order
  of the list, which an update leaves as it is. When an application has one row at
  most, as the one-to-one relation of the schema means it to be, the order plays no
  role. When it has several, PostgreSQL may return another of them after an update,
  which this function does not show. The function gives the rows the query yields;
  the call itself, with the rejection of a parameter out of range, is
  \<open>storage_getScreeningResult\<close> below.
\<close>

definition getScreeningResult :: "store \<Rightarrow> int \<Rightarrow> screening_result option" where
  "getScreeningResult s appId =
     find (\<lambda>r. applicationId r = appId) (screeningResults s)"

text \<open>
  \<^verbatim>\<open>createScreeningResult(insertResult)\<close>: a new row with the next key, the
  given values, the default \<^verbatim>\<open>"pending"\<close> for an absent \<^verbatim>\<open>aiStatus\<close> and
  \<^verbatim>\<open>null\<close> elsewhere. \<^verbatim>\<open>application_id\<close> is \<^verbatim>\<open>notNull\<close> and references
  \<^verbatim>\<open>applications.id\<close>. A value that a column rejects fails the statement before
  it runs; an insert that runs and then violates a constraint leaves no row but has
  taken its key from the sequence.
\<close>

definition createScreeningResult ::
  "screening_update \<Rightarrow> store \<Rightarrow> (error + screening_result) \<times> store" where
  "createScreeningResult insertResult s =
     (if \<not> validValues insertResult then (Inl DbError, s)
      else
        (case u_applicationId insertResult of
           None \<Rightarrow> (Inl DbError, s \<lparr> screeningSeq := screeningSeq s + 1 \<rparr>)
         | Some a \<Rightarrow>
             if a \<notin> set (map a_id (applications s))
             then (Inl DbError, s \<lparr> screeningSeq := screeningSeq s + 1 \<rparr>)
             else
               let result = applyValues insertResult
                     \<lparr> sr_id = screeningSeq s, applicationId = a, rulesScore = None,
                       semanticScore = None, finalScore = None, reasons = None,
                       aiSummary = None, aiQuestions = None, aiStatus = Some Pending \<rparr>
               in (Inr result, s \<lparr> screeningResults := screeningResults s @ [result],
                                   screeningSeq := screeningSeq s + 1 \<rparr>)))"

text \<open>
  \<^verbatim>\<open>updateScreeningResult(id, updates)\<close>: one \<^verbatim>\<open>UPDATE ... WHERE id = $id\<close>. The
  statement fails as a whole, changing nothing, when it has no value to set or a
  column rejects its value. The row returned by the source is not used by any caller
  in the pipeline, so the model returns the store only.
\<close>

definition updateScreeningResult :: "int \<Rightarrow> screening_update \<Rightarrow> store \<Rightarrow> error + store" where
  "updateScreeningResult ident updates s =
     (if updates = noValues \<or> \<not> validValues updates then Inl DbError
      else Inr (s \<lparr> screeningResults :=
                  map (\<lambda>r. if sr_id r = ident then applyValues updates r else r)
                      (screeningResults s) \<rparr>))"

text \<open>
  \<^verbatim>\<open>getApplication(id)\<close>: the application joined (inner joins) with its job and
  its seeker, so an application whose job or seeker row is missing is not found; the
  screening result is attached by a left join. The function gives the row the query
  yields, and none for an identifier that no key can equal; the call itself, which
  the database rejects for such an identifier, is \<open>storage_getApplication\<close> below.
\<close>

record application_ctx =
  app :: application_row
  job :: job_row
  seeker :: user_row
  screening :: "screening_result option"

definition getApplication :: "store \<Rightarrow> int \<Rightarrow> application_ctx option" where
  "getApplication s ident =
     (case (if int32 ident then find (\<lambda>a. a_id a = ident) (applications s) else None) of
        None \<Rightarrow> None
      | Some a \<Rightarrow>
          (case find (\<lambda>j. j_id j = jobId a) (jobs s) of
             None \<Rightarrow> None
           | Some j \<Rightarrow>
               (case find (\<lambda>u. u_id u = seekerId a) (users s) of
                  None \<Rightarrow> None
                | Some u \<Rightarrow>
                    Some \<lparr> app = a, job = j, seeker = u,
                           screening = getScreeningResult s ident \<rparr>)))"

section \<open>Effects of the pipeline\<close>

text \<open>
  The pipeline runs against the store and is observed through a trace: one event for
  each statement that changed the store and one for each request sent to the
  provider. A computation either returns a value or throws, and leaves a state behind
  in both cases.
\<close>

datatype event =
    Inserted screening_result         \<comment> \<open>the row as created\<close>
  | Updated int screening_update      \<comment> \<open>key and values of an update\<close>
  | Called string                     \<comment> \<open>prompt sent to the provider\<close>

record run_state =
  db :: store
  trace :: "event list"

type_synonym 'a io = "run_state \<Rightarrow> (error + 'a) \<times> run_state"

definition ret :: "'a \<Rightarrow> 'a io" where
  "ret x = (\<lambda>w. (Inr x, w))"

definition andThen :: "'a io \<Rightarrow> ('a \<Rightarrow> 'b io) \<Rightarrow> 'b io" where
  "andThen m f = (\<lambda>w. case m w of (Inl e, w') \<Rightarrow> (Inl e, w') | (Inr x, w') \<Rightarrow> f x w')"

definition tryCatch :: "'a io \<Rightarrow> (error \<Rightarrow> 'a io) \<Rightarrow> 'a io" where
  "tryCatch m h = (\<lambda>w. case m w of (Inl e, w') \<Rightarrow> h e w' | (Inr x, w') \<Rightarrow> (Inr x, w'))"

definition liftE :: "error + 'a \<Rightarrow> 'a io" where
  "liftE r = (\<lambda>w. (r, w))"

text \<open>
  The calls of the storage layer as the pipeline makes them. The two reads take an
  identifier that comes from outside (\<^verbatim>\<open>applicationId\<close> is any
  \<^verbatim>\<open>number\<close> that the input schema let through) and reject when the database
  rejects it. The key of an update is always read from a row, so it is in range.
  (That the database cannot be reached at all is not modelled.)
\<close>

definition storage_getApplication :: "int \<Rightarrow> application_ctx option io" where
  "storage_getApplication ident =
     (\<lambda>w. if int32 ident then (Inr (getApplication (db w) ident), w) else (Inl DbError, w))"

definition storage_getScreeningResult :: "int \<Rightarrow> screening_result option io" where
  "storage_getScreeningResult appId =
     (\<lambda>w. if int32 appId then (Inr (getScreeningResult (db w) appId), w) else (Inl DbError, w))"

definition storage_createScreeningResult :: "screening_update \<Rightarrow> screening_result io" where
  "storage_createScreeningResult insertResult =
     (\<lambda>w. case createScreeningResult insertResult (db w) of
             (Inl e, s') \<Rightarrow> (Inl e, w \<lparr> db := s' \<rparr>)
           | (Inr result, s') \<Rightarrow>
               (Inr result, w \<lparr> db := s', trace := trace w @ [Inserted result] \<rparr>))"

definition storage_updateScreeningResult :: "int \<Rightarrow> screening_update \<Rightarrow> unit io" where
  "storage_updateScreeningResult ident updates =
     (\<lambda>w. case updateScreeningResult ident updates (db w) of
             Inl e \<Rightarrow> (Inl e, w)
           | Inr s' \<Rightarrow> (Inr (), w \<lparr> db := s', trace := trace w @ [Updated ident updates] \<rparr>))"

section \<open>The provider (\<^verbatim>\<open>server/openai.ts\<close>)\<close>

text \<open>
  \<^verbatim>\<open>openai\<close> is a client when \<^verbatim>\<open>OPENAI_API_KEY\<close> is set and \<^verbatim>\<open>null\<close>
  otherwise. A client is modelled by what one \<^verbatim>\<open>chat.completions.create\<close> call
  followed by \<^verbatim>\<open>JSON.parse(content || "{}")\<close> comes to, as a function of the prompt:
  the call rejects, the content is \<^verbatim>\<open>null\<close> or empty (then \<^verbatim>\<open>"{}"\<close> is
  parsed), the content is not JSON, or it parses to a value.
\<close>

datatype completion = CallThrows | NoContent | Malformed | Parsed json

type_synonym openai = "(string \<Rightarrow> completion) option"

section \<open>\<^verbatim>\<open>processApplicationAI\<close> (\<^verbatim>\<open>server/routes.ts\<close>)\<close>

fun showNat :: "nat \<Rightarrow> string" where
  "showNat n = (if n < 10 then [''0123456789'' ! n]
                else showNat (n div 10) @ [''0123456789'' ! (n mod 10)])"

definition showInt :: "int \<Rightarrow> string" where
  "showInt i = (if i < 0 then ''-'' @ showNat (nat (- i)) else showNat (nat i))"

fun join :: "string \<Rightarrow> string list \<Rightarrow> string" where
  "join sep [] = []"
| "join sep [x] = x"
| "join sep (x # y # ys) = x @ sep @ join sep (y # ys)"

definition nl :: string where
  "nl = [CHR 0x0A]"

text \<open>
  The prompt. \<^verbatim>\<open>app.seeker\<close> is the row of \<^verbatim>\<open>users\<close>, which has no
  \<^verbatim>\<open>seekerProfile\<close> member, so the three interpolations that go through
  \<^verbatim>\<open>app.seeker.seekerProfile?.\<close> all print \<^verbatim>\<open>undefined\<close>; so does
  \<^verbatim>\<open>requiredSkills?.join(", ")\<close> when the column is \<^verbatim>\<open>null\<close>.
\<close>

definition buildPrompt :: "application_ctx \<Rightarrow> string" where
  \<open>buildPrompt a =
     nl @
     ''      Job: '' @ title (job a) @ '' at '' @ showInt (companyId (job a)) @ '' (Company ID)'' @ nl @
     ''      Description: '' @ description (job a) @ nl @
     ''      Required Skills: '' @
        (case requiredSkills (job a) of None \<Rightarrow> ''undefined'' | Some xs \<Rightarrow> join '', '' xs) @ nl @
     ''      '' @ nl @
     ''      Candidate: '' @ email (seeker a) @ nl @
     ''      Profile Skills: undefined'' @ nl @
     ''      Experience: undefined years'' @ nl @
     ''      Resume Text: undefined...'' @ nl @
     nl @
     ''      Analyze fit. Return JSON:'' @ nl @
     ''      {'' @ nl @
     ''        "rulesScore": number (0-100 based on skills/exp match),'' @ nl @
     ''        "semanticScore": number (0-100 based on similarity),'' @ nl @
     ''        "finalScore": number (weighted),'' @ nl @
     ''        "reasons": ["reason1", "reason2"],'' @ nl @
     ''        "summary": "Short summary",'' @ nl @
     ''        "questions": ["Q1", "Q2", "Q3"]'' @ nl @
     ''      }'' @ nl @
     ''    ''\<close>

text \<open>The literal used when \<^verbatim>\<open>openai\<close> is \<^verbatim>\<open>null\<close>.\<close>

definition mockResponse :: json where
  "mockResponse = JObj
     [ (''rulesScore'', JNum 85),
       (''semanticScore'', JNum 80),
       (''finalScore'', JNum 82),
       (''reasons'', JArr [JStr ''Matches required skills'', JStr ''Good experience'']),
       (''summary'', JStr ''Strong candidate with relevant experience.''),
       (''questions'', JArr [JStr ''Describe your experience with React.'',
                             JStr ''How do you handle state management?'']) ]"

definition callOpenAI :: "openai \<Rightarrow> string \<Rightarrow> json io" where
  "callOpenAI openai prompt =
     (case openai of
        None \<Rightarrow> ret mockResponse
      | Some create \<Rightarrow>
          (\<lambda>w. let w' = w \<lparr> trace := trace w @ [Called prompt] \<rparr> in
                case create prompt of
                  CallThrows \<Rightarrow> (Inl ProviderError, w')
                | NoContent \<Rightarrow> (Inr (JObj []), w')
                | Malformed \<Rightarrow> (Inl SyntaxError, w')
                | Parsed v \<Rightarrow> (Inr v, w')))"

text \<open>
  Lines 264 to 273: fetch the screening result of the application and mark it
  \<^verbatim>\<open>"processing"\<close>, or create it. In the second branch \<^verbatim>\<open>screening\<close> stays the
  row as it was fetched; only its key is used afterwards.
\<close>

definition createOrFetch :: "int \<Rightarrow> screening_result io" where
  "createOrFetch appId =
     andThen (storage_getScreeningResult appId) (\<lambda>fetched.
       case fetched of
         None \<Rightarrow>
           storage_createScreeningResult
             (noValues \<lparr> u_applicationId := Some appId, u_aiStatus := Some Processing \<rparr>)
       | Some sc \<Rightarrow>
           andThen (storage_updateScreeningResult (sr_id sc)
                      (noValues \<lparr> u_aiStatus := Some Processing \<rparr>))
                   (\<lambda>_. ret sc))"

text \<open>
  Lines 321 to 329: the values of the final update, read off \<^verbatim>\<open>aiResponse\<close>.
  Reading a property of \<^verbatim>\<open>null\<close> throws.
\<close>

definition completeValues :: "json \<Rightarrow> error + screening_update" where
  "completeValues aiResponse =
     (if aiResponse = JNull then Inl TypeError
      else Inr \<lparr> u_applicationId = None,
                 u_rulesScore = field aiResponse ''rulesScore'',
                 u_semanticScore = field aiResponse ''semanticScore'',
                 u_finalScore = field aiResponse ''finalScore'',
                 u_reasons = field aiResponse ''reasons'',
                 u_aiSummary = field aiResponse ''summary'',
                 u_aiQuestions = field aiResponse ''questions'',
                 u_aiStatus = Some Complete \<rparr>)"

text \<open>
  The body of \<^verbatim>\<open>try\<close> (lines 261 to 329), the handler of \<^verbatim>\<open>catch\<close> (lines
  332 to 337) and the function. Logging and the two-second delay of line 276 touch
  neither the store nor the provider and are left out.
\<close>

definition tryBlock :: "openai \<Rightarrow> int \<Rightarrow> unit io" where
  "tryBlock openai appId =
     andThen (storage_getApplication appId) (\<lambda>found.
       case found of
         None \<Rightarrow> ret ()
       | Some a \<Rightarrow>
           andThen (createOrFetch appId) (\<lambda>sc.
           andThen (callOpenAI openai (buildPrompt a)) (\<lambda>aiResponse.
           andThen (liftE (completeValues aiResponse)) (\<lambda>updates.
           storage_updateScreeningResult (sr_id sc) updates))))"

definition catchBlock :: "int \<Rightarrow> error \<Rightarrow> unit io" where
  "catchBlock appId err =
     andThen (storage_getScreeningResult appId) (\<lambda>fetched.
       case fetched of
         None \<Rightarrow> ret ()
       | Some sc \<Rightarrow>
           storage_updateScreeningResult (sr_id sc) (noValues \<lparr> u_aiStatus := Some Failed \<rparr>))"

definition processApplicationAI :: "openai \<Rightarrow> int \<Rightarrow> unit io" where
  "processApplicationAI openai appId =
     tryCatch (tryBlock openai appId) (catchBlock appId)"

section \<open>Runs that overlap\<close>

text \<open>
  \<^verbatim>\<open>processApplicationAI\<close> is an \<^verbatim>\<open>async\<close> function that both callers start
  without awaiting it, so the runs of two triggers overlap: each \<^verbatim>\<open>await\<close> hands
  control to whatever else is pending. The same function is given here a second time,
  cut at its awaits: a run is at one of the points below, and a step takes it from
  one await to the next, doing the one call to the storage layer or to the provider
  that lies between them.
\<close>

datatype pc =
    AtGetApplication                                  \<comment> \<open>line 261\<close>
  | AtGetScreening application_ctx                    \<comment> \<open>line 265\<close>
  | AtCreateOrUpdate application_ctx "screening_result option"   \<comment> \<open>lines 266 to 273\<close>
  | AtOpenAI application_ctx screening_result         \<comment> \<open>lines 276 to 319\<close>
  | AtComplete screening_result json                  \<comment> \<open>lines 321 to 329\<close>
  | AtCatch error                                     \<comment> \<open>line 334\<close>
  | AtFailed screening_result                         \<comment> \<open>line 336\<close>
  | Settled "error + unit"                            \<comment> \<open>the promise is resolved or rejected\<close>

fun step :: "openai \<Rightarrow> int \<Rightarrow> pc \<Rightarrow> run_state \<Rightarrow> pc \<times> run_state" where
  "step openai appId AtGetApplication w =
     (case storage_getApplication appId w of
        (Inl e, w') \<Rightarrow> (AtCatch e, w')
      | (Inr None, w') \<Rightarrow> (Settled (Inr ()), w')
      | (Inr (Some a), w') \<Rightarrow> (AtGetScreening a, w'))"
| "step openai appId (AtGetScreening a) w =
     (case storage_getScreeningResult appId w of
        (Inl e, w') \<Rightarrow> (AtCatch e, w')
      | (Inr fetched, w') \<Rightarrow> (AtCreateOrUpdate a fetched, w'))"
| "step openai appId (AtCreateOrUpdate a None) w =
     (case storage_createScreeningResult
             (noValues \<lparr> u_applicationId := Some appId, u_aiStatus := Some Processing \<rparr>) w of
        (Inl e, w') \<Rightarrow> (AtCatch e, w')
      | (Inr sc, w') \<Rightarrow> (AtOpenAI a sc, w'))"
| "step openai appId (AtCreateOrUpdate a (Some sc)) w =
     (case storage_updateScreeningResult (sr_id sc)
             (noValues \<lparr> u_aiStatus := Some Processing \<rparr>) w of
        (Inl e, w') \<Rightarrow> (AtCatch e, w')
      | (Inr u, w') \<Rightarrow> (AtOpenAI a sc, w'))"
| "step openai appId (AtOpenAI a sc) w =
     (case callOpenAI openai (buildPrompt a) w of
        (Inl e, w') \<Rightarrow> (AtCatch e, w')
      | (Inr aiResponse, w') \<Rightarrow> (AtComplete sc aiResponse, w'))"
| "step openai appId (AtComplete sc aiResponse) w =
     (case andThen (liftE (completeValues aiResponse))
                   (\<lambda>updates. storage_updateScreeningResult (sr_id sc) updates) w of
        (Inl e, w') \<Rightarrow> (AtCatch e, w')
      | (Inr u, w') \<Rightarrow> (Settled (Inr ()), w'))"
| "step openai appId (AtCatch err) w =
     (case storage_getScreeningResult appId w of
        (Inl e, w') \<Rightarrow> (Settled (Inl e), w')
      | (Inr None, w') \<Rightarrow> (Settled (Inr ()), w')
      | (Inr (Some sc), w') \<Rightarrow> (AtFailed sc, w'))"
| "step openai appId (AtFailed sc) w =
     (case storage_updateScreeningResult (sr_id sc)
             (noValues \<lparr> u_aiStatus := Some Failed \<rparr>) w of
        (Inl e, w') \<Rightarrow> (Settled (Inl e), w')
      | (Inr u, w') \<Rightarrow> (Settled (Inr ()), w'))"
| "step openai appId (Settled out) w = (Settled out, w)"

text \<open>A run on its own: so many steps in a row.\<close>

fun steps :: "openai \<Rightarrow> int \<Rightarrow> nat \<Rightarrow> pc \<Rightarrow> run_state \<Rightarrow> pc \<times> run_state" where
  "steps openai appId 0 p w = (p, w)"
| "steps openai appId (Suc n) p w =
     (case step openai appId p w of (p', w') \<Rightarrow> steps openai appId n p' w')"

text \<open>
  Two runs on one store. Each has its own provider argument, which stands for what
  the call of that run comes to; a schedule says which of the two takes the next step
  (\<open>True\<close> for the first).
\<close>

fun overlapped ::
  "openai \<times> int \<Rightarrow> openai \<times> int \<Rightarrow> bool list \<Rightarrow> pc \<times> pc \<times> run_state \<Rightarrow> pc \<times> pc \<times> run_state" where
  "overlapped runA runB [] st = st"
| "overlapped runA runB (first # rest) (pa, pb, w) =
     (if first
      then (case step (fst runA) (snd runA) pa w of
              (pa', w') \<Rightarrow> overlapped runA runB rest (pa', pb, w'))
      else (case step (fst runB) (snd runB) pb w of
              (pb', w') \<Rightarrow> overlapped runA runB rest (pa, pb', w')))"

section \<open>The manual trigger \<^verbatim>\<open>POST /api/ai/process\<close>\<close>

text \<open>
  \<^verbatim>\<open>api.ai.process.input\<close> is \<^verbatim>\<open>z.object({ applicationId: z.number() })\<close>.
\<close>

definition parseInput :: "json \<Rightarrow> error + int" where
  "parseInput body =
     (case body of
        JObj kvs \<Rightarrow> (case field body ''applicationId'' of
                       Some (JNum n) \<Rightarrow> Inr n
                     | _ \<Rightarrow> Inl ZodError)
      | _ \<Rightarrow> Inl ZodError)"

record http_response =
  status :: nat
  body :: json

text \<open>
  The handler starts the pipeline without awaiting it and answers at once; the state
  returned here is the one the pipeline leaves when it has settled, and its outcome is
  dropped.
\<close>

definition aiProcessHandler :: "openai \<Rightarrow> json \<Rightarrow> http_response io" where
  "aiProcessHandler openai reqBody =
     (case parseInput reqBody of
        Inl e \<Rightarrow> liftE (Inl e)
      | Inr appId \<Rightarrow>
          (\<lambda>w. let (outcome, w') = processApplicationAI openai appId w in
                (Inr \<lparr> status = 200,
                       body = JObj [(''message'', JStr ''Processing started''),
                                    (''status'', JStr ''pending'')] \<rparr>, w')))"

section \<open>Notions used to state the results\<close>

text \<open>A run starts from a store with an empty trace.\<close>

definition start :: "store \<Rightarrow> run_state" where
  "start s = \<lparr> db = s, trace = [] \<rparr>"

text \<open>
  What the evaluation step (lines 300 to 319) comes to, without the trace: the value
  of \<^verbatim>\<open>aiResponse\<close>, or the exception thrown.
\<close>

definition aiResponseOf :: "openai \<Rightarrow> string \<Rightarrow> error + json" where
  "aiResponseOf openai prompt =
     (case openai of
        None \<Rightarrow> Inr mockResponse
      | Some create \<Rightarrow>
          (case create prompt of
             CallThrows \<Rightarrow> Inl ProviderError
           | NoContent \<Rightarrow> Inr (JObj [])
           | Malformed \<Rightarrow> Inl SyntaxError
           | Parsed v \<Rightarrow> Inr v))"

text \<open>
  The values of the last update of a run, given what the evaluation came to: the
  values read off the response when they can be read and the columns take them,
  \<^verbatim>\<open>{ aiStatus: "failed" }\<close> otherwise.
\<close>

definition lastValues :: "error + json \<Rightarrow> screening_update" where
  "lastValues res =
     (case res of
        Inl e \<Rightarrow> noValues \<lparr> u_aiStatus := Some Failed \<rparr>
      | Inr aiResponse \<Rightarrow>
          (case completeValues aiResponse of
             Inl e \<Rightarrow> noValues \<lparr> u_aiStatus := Some Failed \<rparr>
           | Inr u \<Rightarrow> if validValues u then u else noValues \<lparr> u_aiStatus := Some Failed \<rparr>))"

text \<open>
  The row that lines 264 to 273 return: the row fetched, or the row created when there
  was none.
\<close>

definition baseRow :: "store \<Rightarrow> int \<Rightarrow> screening_result" where
  "baseRow s appId =
     (case getScreeningResult s appId of
        Some sc \<Rightarrow> sc
      | None \<Rightarrow> \<lparr> sr_id = screeningSeq s, applicationId = appId, rulesScore = None,
                  semanticScore = None, finalScore = None, reasons = None,
                  aiSummary = None, aiQuestions = None, aiStatus = Some Processing \<rparr>)"

definition rowsFor :: "store \<Rightarrow> int \<Rightarrow> screening_result list" where
  "rowsFor s appId = filter (\<lambda>r. applicationId r = appId) (screeningResults s)"

text \<open>
  The Score Aggregator as the specification words it:
  \<^verbatim>\<open>round(0.4 * rulesScore + 0.6 * semanticScore)\<close> clamped to \<open>[0,100]\<close>, on
  integers, a half rounding up. The repository has no such function.
\<close>

definition spec_finalScore :: "int \<Rightarrow> int \<Rightarrow> int" where
  "spec_finalScore r s = max 0 (min 100 ((4 * r + 6 * s + 5) div 10))"

subsection \<open>Scenarios\<close>

text \<open>
  Scenario A of the specification: the job requires React and Node.js and five years,
  the candidate has React, Node.js and TypeScript and six years; no screening result
  yet.
\<close>

definition scenarioA :: store where
  "scenarioA =
     \<lparr> users = [\<lparr> u_id = 1, email = ''seeker@test.com'', role = ''seeker'' \<rparr>],
       jobSeekerProfiles =
         [\<lparr> userId = 1, skills = Some [''React'', ''Node.js'', ''TypeScript''],
            experienceYears = Some 6, resumeText = None \<rparr>],
       jobs = [\<lparr> j_id = 1, companyId = 1, title = ''Senior React Developer'',
                 description = ''We are looking for an expert in React and Node.js.'',
                 requiredSkills = Some [''React'', ''Node.js''], minYears = Some 5 \<rparr>],
       applications = [\<lparr> a_id = 1, jobId = 1, seekerId = 1, a_note = None \<rparr>],
       screeningResults = [],
       screeningSeq = 1 \<rparr>"

definition scenarioA_ctx :: application_ctx where
  "scenarioA_ctx =
     \<lparr> app = \<lparr> a_id = 1, jobId = 1, seekerId = 1, a_note = None \<rparr>,
       job = \<lparr> j_id = 1, companyId = 1, title = ''Senior React Developer'',
               description = ''We are looking for an expert in React and Node.js.'',
               requiredSkills = Some [''React'', ''Node.js''], minYears = Some 5 \<rparr>,
       seeker = \<lparr> u_id = 1, email = ''seeker@test.com'', role = ''seeker'' \<rparr>,
       screening = None \<rparr>"

text \<open>Scenario B: the application refers to a job that does not exist.\<close>

definition scenarioB :: store where
  "scenarioB = scenarioA \<lparr> applications := [\<lparr> a_id = 1, jobId = 7, seekerId = 1, a_note = None \<rparr>] \<rparr>"

text \<open>A provider whose call rejects, and one that answers with a given JSON value.\<close>

definition rejecting :: openai where
  "rejecting = Some (\<lambda>prompt. CallThrows)"

definition answering :: "json \<Rightarrow> openai" where
  "answering v = Some (\<lambda>prompt. Parsed v)"

text \<open>Further stores and provider answers used as concrete inputs.\<close>

definition freshRow :: screening_result where
  "freshRow = \<lparr> sr_id = 1, applicationId = 1, rulesScore = None, semanticScore = None,
                finalScore = None, reasons = None, aiSummary = None, aiQuestions = None,
                aiStatus = Some Processing \<rparr>"

definition mockRow :: screening_result where
  "mockRow = \<lparr> sr_id = 1, applicationId = 1, rulesScore = Some 85, semanticScore = Some 80,
       finalScore = Some 82,
       reasons = Some (JArr [JStr ''Matches required skills'', JStr ''Good experience'']),
       aiSummary = Some ''Strong candidate with relevant experience.'',
       aiQuestions = Some (JArr [JStr ''Describe your experience with React.'',
                                 JStr ''How do you handle state management?'']),
       aiStatus = Some Complete \<rparr>"

text \<open>Scenario A after a run without provider, and the same with the run marked failed.\<close>

definition screenedA :: store where
  "screenedA = scenarioA \<lparr> screeningResults := [mockRow], screeningSeq := 2 \<rparr>"

definition failedA :: store where
  "failedA = scenarioA \<lparr> screeningResults := [mockRow \<lparr> aiStatus := Some Failed \<rparr>],
                         screeningSeq := 2 \<rparr>"

text \<open>Another application, with other facts: nothing of the job is met by the candidate.\<close>

definition scenarioD :: store where
  "scenarioD =
     \<lparr> users = [\<lparr> u_id = 2, email = ''other@test.com'', role = ''seeker'' \<rparr>],
       jobSeekerProfiles =
         [\<lparr> userId = 2, skills = None, experienceYears = Some 0, resumeText = None \<rparr>],
       jobs = [\<lparr> j_id = 5, companyId = 3, title = ''Go Engineer'',
                 description = ''Backend services in Go.'',
                 requiredSkills = Some [''Go''], minYears = Some 10 \<rparr>],
       applications = [\<lparr> a_id = 2, jobId = 5, seekerId = 2, a_note = None \<rparr>],
       screeningResults = [],
       screeningSeq = 1 \<rparr>"

definition scenarioD_ctx :: application_ctx where
  "scenarioD_ctx =
     \<lparr> app = \<lparr> a_id = 2, jobId = 5, seekerId = 2, a_note = None \<rparr>,
       job = \<lparr> j_id = 5, companyId = 3, title = ''Go Engineer'',
               description = ''Backend services in Go.'',
               requiredSkills = Some [''Go''], minYears = Some 10 \<rparr>,
       seeker = \<lparr> u_id = 2, email = ''other@test.com'', role = ''seeker'' \<rparr>,
       screening = None \<rparr>"

text \<open>
  A provider answer whose \<^verbatim>\<open>finalScore\<close> is not the weighted sum of its other two
  scores, and one whose scores lie outside \<open>[0,100]\<close>.
\<close>

definition disagreeing :: json where
  "disagreeing = JObj [(''rulesScore'', JNum 100), (''semanticScore'', JNum 80),
                       (''finalScore'', JNum 5)]"

definition outOfRange :: json where
  "outOfRange = JObj [(''rulesScore'', JNum 150), (''semanticScore'', JNum (- 7)),
                      (''finalScore'', JNum 1000)]"

text \<open>Scenario A with the seeker of the application missing.\<close>

definition scenarioNoSeeker :: store where
  "scenarioNoSeeker =
     scenarioA \<lparr> applications := [\<lparr> a_id = 1, jobId = 1, seekerId = 9, a_note = None \<rparr>] \<rparr>"

text \<open>An answer that lacks four of the six members.\<close>

definition partialAnswer :: json where
  "partialAnswer = JObj [(''semanticScore'', JNum 70), (''summary'', JStr ''Fair.'')]"

text \<open>
  Two triggers for the application of scenario A that overlap. Both runs read before
  either writes; then the second run goes on to its end, its provider call
  rejecting; then the first run goes on to its end.
\<close>

definition bothRead :: "bool list" where
  "bothRead = [True, False, True, False]"

definition bothCreate :: "bool list" where
  "bothCreate = bothRead @ [True, False]"

definition secondFailsFirstCompletes :: "bool list" where
  "secondFailsFirstCompletes = bothCreate @ [False, False, False] @ [True, True]"

text \<open>The events that are requests to the provider.\<close>

fun isCall :: "event \<Rightarrow> bool" where
  "isCall (Called p) = True"
| "isCall e = False"

text \<open>A store with every \<^verbatim>\<open>aiStatus\<close> blanked: what a change of status leaves alone.\<close>

definition withoutStatus :: "store \<Rightarrow> store" where
  "withoutStatus s =
     s \<lparr> screeningResults := map (\<lambda>r. r \<lparr> aiStatus := None \<rparr>) (screeningResults s) \<rparr>"

section \<open>Properties of the storage layer\<close>

lemma find_map_same:
  assumes "\<And>y. P (f y) = P y"
  shows "find P (map f xs) = map_option f (find P xs)"
  using assms by (induction xs) simp_all

lemma find_append_none:
  "find P xs = None \<Longrightarrow> find P (xs @ [x]) = (if P x then Some x else None)"
  by (induction xs) (auto split: if_splits)

lemma applyValues_sr_id [simp]: "sr_id (applyValues u r) = sr_id r"
  by (simp add: applyValues_def)

lemma applyValues_applicationId [simp]:
  "u_applicationId u = None \<Longrightarrow> applicationId (applyValues u r) = applicationId r"
  by (simp add: applyValues_def)

lemma applyValues_aiStatus [simp]:
  "u_aiStatus u = Some st \<Longrightarrow> aiStatus (applyValues u r) = Some st"
  by (simp add: applyValues_def)

lemma applyValues_statusOnly [simp]:
  "applyValues (noValues \<lparr> u_aiStatus := Some st \<rparr>) r = r \<lparr> aiStatus := Some st \<rparr>"
  by (simp add: applyValues_def noValues_def setColumn_def)

lemma validValues_statusOnly [simp]: "validValues (noValues \<lparr> u_aiStatus := x \<rparr>)"
  by (simp add: validValues_def noValues_def accepts_def)

lemma statusOnly_applicationId [simp]: "u_applicationId (noValues \<lparr> u_aiStatus := x \<rparr>) = None"
  by (simp add: noValues_def)

lemma statusOnly_aiStatus [simp]: "u_aiStatus (noValues \<lparr> u_aiStatus := x \<rparr>) = x"
  by (simp add: noValues_def)

lemma statusOnly_neq_noValues [simp]: "noValues \<lparr> u_aiStatus := Some st \<rparr> \<noteq> noValues"
  by (simp add: noValues_def)

lemma getScreeningResult_updated:
  assumes "updateScreeningResult sid u s = Inr s'" and "u_applicationId u = None"
  shows "getScreeningResult s' a =
         map_option (\<lambda>r. if sr_id r = sid then applyValues u r else r) (getScreeningResult s a)"
proof -
  from assms(1) have s': "screeningResults s' =
      map (\<lambda>r. if sr_id r = sid then applyValues u r else r) (screeningResults s)"
    by (auto simp: updateScreeningResult_def split: if_splits)
  show ?thesis
    unfolding getScreeningResult_def s'
    by (rule find_map_same) (simp add: assms(2))
qed

lemma rowsFor_updated:
  assumes "updateScreeningResult sid u s = Inr s'" and "u_applicationId u = None"
  shows "length (rowsFor s' a) = length (rowsFor s a)"
proof -
  from assms(1) have s': "screeningResults s' =
      map (\<lambda>r. if sr_id r = sid then applyValues u r else r) (screeningResults s)"
    by (auto simp: updateScreeningResult_def split: if_splits)
  have "filter (\<lambda>r. applicationId r = a) (map (\<lambda>r. if sr_id r = sid then applyValues u r else r) xs)
        = map (\<lambda>r. if sr_id r = sid then applyValues u r else r) (filter (\<lambda>r. applicationId r = a) xs)"
    for xs
    by (induction xs) (simp_all add: assms(2))
  then show ?thesis
    by (simp add: rowsFor_def s')
qed

lemma getApplication_known:
  "getApplication s a = Some ctx \<Longrightarrow> a \<in> set (map a_id (applications s))"
  by (auto simp: getApplication_def find_Some_iff split: option.splits if_splits)

lemma getApplication_int32:
  "getApplication s a = Some ctx \<Longrightarrow> int32 a"
  by (auto simp: getApplication_def split: option.splits if_splits)

lemma getApplication_out_of_range:
  "\<not> int32 a \<Longrightarrow> getApplication s a = None"
  by (simp add: getApplication_def)

lemma created_row:
  assumes "createScreeningResult (noValues \<lparr> u_applicationId := Some a, u_aiStatus := Some st \<rparr>) s
           = (Inr sc, s')"
  shows "sc = \<lparr> sr_id = screeningSeq s, applicationId = a, rulesScore = None,
                semanticScore = None, finalScore = None, reasons = None,
                aiSummary = None, aiQuestions = None, aiStatus = Some st \<rparr>"
    and "screeningResults s' = screeningResults s @ [sc]"
  using assms
  by (auto simp: createScreeningResult_def Let_def applyValues_def noValues_def setColumn_def
      split: if_splits)

lemma getScreeningResult_created:
  assumes "createScreeningResult (noValues \<lparr> u_applicationId := Some a, u_aiStatus := Some st \<rparr>) s
           = (Inr sc, s')"
    and "getScreeningResult s a = None"
  shows "getScreeningResult s' a = Some sc"
  using created_row[OF assms(1)] assms(2)
  by (simp add: getScreeningResult_def find_append_none)

lemma rowsFor_created:
  assumes "createScreeningResult (noValues \<lparr> u_applicationId := Some a, u_aiStatus := Some st \<rparr>) s
           = (Inr sc, s')"
    and "getScreeningResult s a = None"
  shows "rowsFor s' a = [sc]"
proof -
  from assms(2) have "filter (\<lambda>r. applicationId r = a) (screeningResults s) = []"
    by (simp add: getScreeningResult_def find_None_iff filter_empty_conv)
  with created_row[OF assms(1)] show ?thesis
    by (simp add: rowsFor_def)
qed

section \<open>Properties of the steps of the pipeline\<close>

lemma completeValues_props:
  "completeValues v = Inr u \<Longrightarrow>
     u_applicationId u = None \<and> u_aiStatus u = Some Complete \<and> u \<noteq> noValues"
  by (auto simp: completeValues_def noValues_def split: if_splits)

lemma lastValues_applicationId [simp]: "u_applicationId (lastValues res) = None"
  by (auto simp: lastValues_def dest!: completeValues_props split: sum.splits)

lemma lastValues_valid [simp]: "validValues (lastValues res)"
  by (auto simp: lastValues_def split: sum.splits)

lemma lastValues_neq_noValues [simp]: "lastValues res \<noteq> noValues"
  by (auto simp: lastValues_def dest!: completeValues_props split: sum.splits)

lemma lastValues_status:
  "u_aiStatus (lastValues res) = Some Complete \<or>
   lastValues res = noValues \<lparr> u_aiStatus := Some Failed \<rparr>"
  by (auto simp: lastValues_def dest!: completeValues_props split: sum.splits)

lemma lastValues_complete:
  assumes "u_aiStatus (lastValues res) = Some Complete"
  shows "\<exists>aiResponse. res = Inr aiResponse \<and> aiResponse \<noteq> JNull \<and>
           completeValues aiResponse = Inr (lastValues res)"
  using assms
  by (auto simp: lastValues_def completeValues_def split: sum.splits if_splits)

lemma storage_update_ok:
  "validValues u \<Longrightarrow> u \<noteq> noValues \<Longrightarrow>
   \<exists>w'. storage_updateScreeningResult sid u w = (Inr (), w') \<and>
        updateScreeningResult sid u (db w) = Inr (db w') \<and>
        trace w' = trace w @ [Updated sid u]"
  by (simp add: storage_updateScreeningResult_def updateScreeningResult_def)

lemma storage_update_rejected:
  "\<not> validValues u \<Longrightarrow> storage_updateScreeningResult sid u w = (Inl DbError, w)"
  by (simp add: storage_updateScreeningResult_def updateScreeningResult_def)

lemma callOpenAI_result:
  "\<exists>w'. callOpenAI openai p w = (aiResponseOf openai p, w') \<and> db w' = db w \<and>
      trace w' = trace w @ (case openai of None \<Rightarrow> [] | Some create \<Rightarrow> [Called p])"
  by (auto simp: callOpenAI_def aiResponseOf_def ret_def Let_def
      split: option.splits completion.splits)

lemma createOrFetch_fetched:
  assumes "getScreeningResult (db w) a = Some sc" and "int32 a"
  shows "\<exists>w1. createOrFetch a w = (Inr sc, w1) \<and>
           updateScreeningResult (sr_id sc) (noValues \<lparr> u_aiStatus := Some Processing \<rparr>) (db w)
             = Inr (db w1) \<and>
           trace w1 = trace w @ [Updated (sr_id sc) (noValues \<lparr> u_aiStatus := Some Processing \<rparr>)]"
  using assms
  by (simp add: createOrFetch_def andThen_def storage_getScreeningResult_def ret_def
      storage_updateScreeningResult_def updateScreeningResult_def)

lemma createOrFetch_created:
  assumes "getScreeningResult (db w) a = None" and "a \<in> set (map a_id (applications (db w)))"
    and "int32 a"
  shows "\<exists>sc w1. createOrFetch a w = (Inr sc, w1) \<and>
           createScreeningResult
             (noValues \<lparr> u_applicationId := Some a, u_aiStatus := Some Processing \<rparr>) (db w)
             = (Inr sc, db w1) \<and>
           trace w1 = trace w @ [Inserted sc]"
  using assms
  by (auto simp add: createOrFetch_def andThen_def storage_getScreeningResult_def
      storage_createScreeningResult_def createScreeningResult_def Let_def validValues_def
      accepts_def noValues_def)

text \<open>After lines 264 to 273 the application has a row in \<^verbatim>\<open>"processing"\<close>.\<close>

lemma createOrFetch_row:
  assumes "getApplication (db w) a = Some ctx"
  shows "\<exists>w1. createOrFetch a w = (Inr (baseRow (db w) a), w1) \<and>
           getScreeningResult (db w1) a
             = Some ((baseRow (db w) a) \<lparr> aiStatus := Some Processing \<rparr>) \<and>
           length (rowsFor (db w1) a)
             = (case getScreeningResult (db w) a of None \<Rightarrow> 1
                | Some sc \<Rightarrow> length (rowsFor (db w) a)) \<and>
           trace w1 = trace w @
             [case getScreeningResult (db w) a of
                None \<Rightarrow> Inserted (baseRow (db w) a)
              | Some sc \<Rightarrow> Updated (sr_id sc) (noValues \<lparr> u_aiStatus := Some Processing \<rparr>)]"
proof (cases "getScreeningResult (db w) a")
  case None
  from createOrFetch_created[OF None getApplication_known[OF assms] getApplication_int32[OF assms]]
  obtain sc w1 where c: "createOrFetch a w = (Inr sc, w1)"
    and cr: "createScreeningResult
               (noValues \<lparr> u_applicationId := Some a, u_aiStatus := Some Processing \<rparr>) (db w)
             = (Inr sc, db w1)"
    and tr: "trace w1 = trace w @ [Inserted sc]"
    by blast
  from created_row(1)[OF cr] None have sc: "sc = baseRow (db w) a"
    by (simp add: baseRow_def)
  from created_row(1)[OF cr] have "sc \<lparr> aiStatus := Some Processing \<rparr> = sc"
    by simp
  with getScreeningResult_created[OF cr None] rowsFor_created[OF cr None] c tr None sc
  show ?thesis by simp
next
  case (Some sc)
  from createOrFetch_fetched[OF Some getApplication_int32[OF assms]]
  obtain w1 where c: "createOrFetch a w = (Inr sc, w1)"
    and up: "updateScreeningResult (sr_id sc) (noValues \<lparr> u_aiStatus := Some Processing \<rparr>) (db w)
             = Inr (db w1)"
    and tr: "trace w1 = trace w @ [Updated (sr_id sc) (noValues \<lparr> u_aiStatus := Some Processing \<rparr>)]"
    by blast
  have "getScreeningResult (db w1) a = Some (sc \<lparr> aiStatus := Some Processing \<rparr>)"
    using getScreeningResult_updated[OF up, of a] Some by simp
  with c tr Some rowsFor_updated[OF up, of a] show ?thesis
    by (simp add: baseRow_def)
qed

lemma catchBlock_row:
  assumes "getScreeningResult (db w) a = Some r" and "int32 a"
  shows "\<exists>w'. catchBlock a e w = (Inr (), w') \<and>
      updateScreeningResult (sr_id r) (noValues \<lparr> u_aiStatus := Some Failed \<rparr>) (db w) = Inr (db w') \<and>
      trace w' = trace w @ [Updated (sr_id r) (noValues \<lparr> u_aiStatus := Some Failed \<rparr>)]"
  using assms
  by (simp add: catchBlock_def andThen_def storage_getScreeningResult_def
      storage_updateScreeningResult_def updateScreeningResult_def)

text \<open>Lines 275 to 338, from a state in which the application has a row.\<close>

lemma rest_of_run:
  assumes row: "getScreeningResult (db w1) a = Some r" and sid: "sr_id r = sid"
    and call: "callOpenAI openai p w1 = (res, w1')" and same: "db w1' = db w1"
    and range: "int32 a"
  shows "\<exists>w2. tryCatch (andThen (callOpenAI openai p) (\<lambda>aiResponse.
                  andThen (liftE (completeValues aiResponse)) (\<lambda>updates.
                  storage_updateScreeningResult sid updates))) (catchBlock a) w1 = (Inr (), w2) \<and>
          updateScreeningResult sid (lastValues res) (db w1) = Inr (db w2) \<and>
          trace w2 = trace w1' @ [Updated sid (lastValues res)]"
proof -
  have row': "getScreeningResult (db w1') a = Some r"
    using row same by simp
  note catch = catchBlock_row[OF row' range, unfolded sid same]
  show ?thesis
  proof (cases res)
    case (Inl e)
    with catch[of e] call show ?thesis
      by (auto simp: tryCatch_def andThen_def lastValues_def)
  next
    case (Inr resp)
    show ?thesis
    proof (cases "completeValues resp")
      case (Inl e)
      with catch[of e] call Inr show ?thesis
        by (auto simp: tryCatch_def andThen_def lastValues_def liftE_def)
    next
      case u: (Inr u)
      show ?thesis
      proof (cases "validValues u")
        case True
        from storage_update_ok[OF True, of sid w1'] completeValues_props[OF u]
        obtain w2 where "storage_updateScreeningResult sid u w1' = (Inr (), w2)"
          "updateScreeningResult sid u (db w1') = Inr (db w2)"
          "trace w2 = trace w1' @ [Updated sid u]"
          by blast
        with call Inr u True same show ?thesis
          by (auto simp: tryCatch_def andThen_def lastValues_def liftE_def)
      next
        case False
        with catch[of DbError] call Inr u storage_update_rejected[OF False, of sid w1']
        show ?thesis
          by (auto simp: tryCatch_def andThen_def lastValues_def liftE_def)
      qed
    qed
  qed
qed

section \<open>A run on an application that is found\<close>

text \<open>
  The run returns normally; its three steps are the step of lines 264 to 273, the
  evaluation, which leaves the store alone, and one last update of the row of lines
  264 to 273 with the values \<open>lastValues\<close>.
\<close>

lemma processApplicationAI_found:
  assumes found: "getApplication (db w) a = Some ctx"
  shows "\<exists>w1 w2.
     createOrFetch a w = (Inr (baseRow (db w) a), w1) \<and>
     getScreeningResult (db w1) a = Some ((baseRow (db w) a) \<lparr> aiStatus := Some Processing \<rparr>) \<and>
     length (rowsFor (db w1) a)
       = (case getScreeningResult (db w) a of None \<Rightarrow> 1
          | Some sc \<Rightarrow> length (rowsFor (db w) a)) \<and>
     trace w1 = trace w @
       [case getScreeningResult (db w) a of
          None \<Rightarrow> Inserted (baseRow (db w) a)
        | Some sc \<Rightarrow> Updated (sr_id sc) (noValues \<lparr> u_aiStatus := Some Processing \<rparr>)] \<and>
     processApplicationAI openai a w = (Inr (), w2) \<and>
     updateScreeningResult (sr_id (baseRow (db w) a))
        (lastValues (aiResponseOf openai (buildPrompt ctx))) (db w1) = Inr (db w2) \<and>
     trace w2 = trace w1 @
        (case openai of None \<Rightarrow> [] | Some create \<Rightarrow> [Called (buildPrompt ctx)]) @
        [Updated (sr_id (baseRow (db w) a)) (lastValues (aiResponseOf openai (buildPrompt ctx)))]"
proof -
  from createOrFetch_row[OF found] obtain w1 where
    c: "createOrFetch a w = (Inr (baseRow (db w) a), w1)" and
    row: "getScreeningResult (db w1) a = Some ((baseRow (db w) a) \<lparr> aiStatus := Some Processing \<rparr>)" and
    len: "length (rowsFor (db w1) a)
       = (case getScreeningResult (db w) a of None \<Rightarrow> 1
          | Some sc \<Rightarrow> length (rowsFor (db w) a))" and
    tr0: "trace w1 = trace w @
       [case getScreeningResult (db w) a of
          None \<Rightarrow> Inserted (baseRow (db w) a)
        | Some sc \<Rightarrow> Updated (sr_id sc) (noValues \<lparr> u_aiStatus := Some Processing \<rparr>)]"
    by blast
  from callOpenAI_result[of openai "buildPrompt ctx" w1] obtain w1' where
    call: "callOpenAI openai (buildPrompt ctx) w1 = (aiResponseOf openai (buildPrompt ctx), w1')"
    and same: "db w1' = db w1"
    and tr1: "trace w1' = trace w1 @ (case openai of None \<Rightarrow> [] | Some create \<Rightarrow> [Called (buildPrompt ctx)])"
    by blast
  from rest_of_run[OF row _ call same getApplication_int32[OF found],
      of "sr_id (baseRow (db w) a)"] obtain w2 where
    rest: "tryCatch (andThen (callOpenAI openai (buildPrompt ctx)) (\<lambda>aiResponse.
                  andThen (liftE (completeValues aiResponse)) (\<lambda>updates.
                  storage_updateScreeningResult (sr_id (baseRow (db w) a)) updates)))
             (catchBlock a) w1 = (Inr (), w2)"
    and up: "updateScreeningResult (sr_id (baseRow (db w) a))
               (lastValues (aiResponseOf openai (buildPrompt ctx))) (db w1) = Inr (db w2)"
    and tr: "trace w2 = trace w1' @
               [Updated (sr_id (baseRow (db w) a)) (lastValues (aiResponseOf openai (buildPrompt ctx)))]"
    by auto
  have run: "processApplicationAI openai a w = (Inr (), w2)"
    unfolding processApplicationAI_def tryBlock_def
    using found c rest getApplication_int32[OF found]
    by (simp add: tryCatch_def andThen_def storage_getApplication_def)
  from tr tr1 have "trace w2 = trace w1 @
        (case openai of None \<Rightarrow> [] | Some create \<Rightarrow> [Called (buildPrompt ctx)]) @
        [Updated (sr_id (baseRow (db w) a)) (lastValues (aiResponseOf openai (buildPrompt ctx)))]"
    by simp
  with c row len tr0 run up show ?thesis by blast
qed

text \<open>The row of the application after the run, in closed form.\<close>

lemma processApplicationAI_row:
  assumes found: "getApplication (db w) a = Some ctx"
  shows "\<exists>w2. processApplicationAI openai a w = (Inr (), w2) \<and>
     getScreeningResult (db w2) a =
       Some (applyValues (lastValues (aiResponseOf openai (buildPrompt ctx)))
               ((baseRow (db w) a) \<lparr> aiStatus := Some Processing \<rparr>))"
proof -
  from processApplicationAI_found[OF found, of openai] obtain w1 :: run_state and w2 where
     row: "getScreeningResult (db w1) a = Some ((baseRow (db w) a) \<lparr> aiStatus := Some Processing \<rparr>)" and
     run: "processApplicationAI openai a w = (Inr (), w2)" and
     up: "updateScreeningResult (sr_id (baseRow (db w) a))
        (lastValues (aiResponseOf openai (buildPrompt ctx))) (db w1) = Inr (db w2)"
    by blast
  from getScreeningResult_updated[OF up lastValues_applicationId, of a] row
  have "getScreeningResult (db w2) a =
       Some (applyValues (lastValues (aiResponseOf openai (buildPrompt ctx)))
               ((baseRow (db w) a) \<lparr> aiStatus := Some Processing \<rparr>))"
    by simp
  with run show ?thesis by blast
qed

lemma scenarioA_found: "getApplication (db (start scenarioA)) 1 = Some scenarioA_ctx"
  by (simp add: start_def scenarioA_def scenarioA_ctx_def getApplication_def int32_def
      getScreeningResult_def)

lemma scenarioB_not_found: "getApplication (db (start scenarioB)) 1 = None"
  by (simp add: start_def scenarioA_def scenarioB_def getApplication_def int32_def)

section \<open>Runs that complete, runs whose try block throws\<close>

lemma complete_run:
  assumes found: "getApplication (db w) a = Some ctx"
    and run: "processApplicationAI openai a w = (out, w')"
    and row: "getScreeningResult (db w') a = Some r"
    and complete: "aiStatus r = Some Complete"
  shows "\<exists>aiResponse u. aiResponseOf openai (buildPrompt ctx) = Inr aiResponse \<and>
           aiResponse \<noteq> JNull \<and>
           completeValues aiResponse = Inr u \<and> validValues u \<and>
           r = applyValues u ((baseRow (db w) a) \<lparr> aiStatus := Some Processing \<rparr>)"
proof -
  let ?u = "lastValues (aiResponseOf openai (buildPrompt ctx))"
  from processApplicationAI_row[OF found, of openai] run row
  have r: "r = applyValues ?u ((baseRow (db w) a) \<lparr> aiStatus := Some Processing \<rparr>)"
    by auto
  from lastValues_status[of "aiResponseOf openai (buildPrompt ctx)"] r complete
  have "u_aiStatus ?u = Some Complete"
    by auto
  from lastValues_complete[OF this] r show ?thesis
    by (metis lastValues_valid)
qed

lemma intColumn_stored:
  assumes "completeValues aiResponse = Inr u" and "validValues u"
  shows "field aiResponse ''rulesScore'' = Some (JNum n) \<Longrightarrow>
           rulesScore (applyValues u r0) = Some n"
    and "field aiResponse ''semanticScore'' = Some (JNum n) \<Longrightarrow>
           semanticScore (applyValues u r0) = Some n"
    and "field aiResponse ''finalScore'' = Some (JNum n) \<Longrightarrow>
           finalScore (applyValues u r0) = Some n"
  using assms
  by (auto simp: completeValues_def validValues_def accepts_def applyValues_def setColumn_def
      split: if_splits sum.splits)

lemma absent_kept:
  assumes "completeValues aiResponse = Inr u"
  shows "field aiResponse ''rulesScore'' = None \<Longrightarrow>
           rulesScore (applyValues u r0) = rulesScore r0"
    and "field aiResponse ''semanticScore'' = None \<Longrightarrow>
           semanticScore (applyValues u r0) = semanticScore r0"
    and "field aiResponse ''finalScore'' = None \<Longrightarrow>
           finalScore (applyValues u r0) = finalScore r0"
    and "field aiResponse ''reasons'' = None \<Longrightarrow> reasons (applyValues u r0) = reasons r0"
    and "field aiResponse ''summary'' = None \<Longrightarrow> aiSummary (applyValues u r0) = aiSummary r0"
    and "field aiResponse ''questions'' = None \<Longrightarrow>
           aiQuestions (applyValues u r0) = aiQuestions r0"
  using assms
  by (auto simp: completeValues_def applyValues_def setColumn_def split: if_splits)

lemma mock_values:
  "completeValues mockResponse = Inr u \<Longrightarrow>
     rulesScore (applyValues u r0) = Some 85 \<and> semanticScore (applyValues u r0) = Some 80 \<and>
     finalScore (applyValues u r0) = Some 82 \<and>
     reasons (applyValues u r0)
       = Some (JArr [JStr ''Matches required skills'', JStr ''Good experience'']) \<and>
     aiSummary (applyValues u r0) = Some ''Strong candidate with relevant experience.'' \<and>
     aiQuestions (applyValues u r0)
       = Some (JArr [JStr ''Describe your experience with React.'',
                     JStr ''How do you handle state management?''])"
  by (auto simp: completeValues_def mockResponse_def applyValues_def setColumn_def
      split: if_splits)

lemma mock_complete: "u_aiStatus (lastValues (Inr mockResponse)) = Some Complete"
  by (simp add: lastValues_def completeValues_def mockResponse_def validValues_def
      accepts_def)

lemma mock_run_completes:
  assumes found: "getApplication (db w) a = Some ctx"
  shows "\<exists>w' r. processApplicationAI None a w = (Inr (), w') \<and>
           getScreeningResult (db w') a = Some r \<and> aiStatus r = Some Complete \<and>
           trace w' = trace w @
             [case getScreeningResult (db w) a of
                None \<Rightarrow> Inserted (baseRow (db w) a)
              | Some sc \<Rightarrow> Updated (sr_id sc) (noValues \<lparr> u_aiStatus := Some Processing \<rparr>),
              Updated (sr_id (baseRow (db w) a)) (lastValues (Inr mockResponse))]"
proof -
  from processApplicationAI_found[OF found, of None]
  have "\<exists>(w1::run_state) w2.
     getScreeningResult (db w1) a = Some ((baseRow (db w) a) \<lparr> aiStatus := Some Processing \<rparr>) \<and>
     trace w1 = trace w @
             [case getScreeningResult (db w) a of
                None \<Rightarrow> Inserted (baseRow (db w) a)
              | Some sc \<Rightarrow> Updated (sr_id sc) (noValues \<lparr> u_aiStatus := Some Processing \<rparr>)] \<and>
     processApplicationAI None a w = (Inr (), w2) \<and>
     updateScreeningResult (sr_id (baseRow (db w) a)) (lastValues (Inr mockResponse)) (db w1)
            = Inr (db w2) \<and>
     trace w2 = trace w1 @ [Updated (sr_id (baseRow (db w) a)) (lastValues (Inr mockResponse))]"
    by (simp add: aiResponseOf_def) blast
  then obtain w1 :: run_state and w2 where
     row: "getScreeningResult (db w1) a = Some ((baseRow (db w) a) \<lparr> aiStatus := Some Processing \<rparr>)" and
     t1: "trace w1 = trace w @
             [case getScreeningResult (db w) a of
                None \<Rightarrow> Inserted (baseRow (db w) a)
              | Some sc \<Rightarrow> Updated (sr_id sc) (noValues \<lparr> u_aiStatus := Some Processing \<rparr>)]" and
     run: "processApplicationAI None a w = (Inr (), w2)" and
     up: "updateScreeningResult (sr_id (baseRow (db w) a)) (lastValues (Inr mockResponse)) (db w1)
            = Inr (db w2)" and
     t2: "trace w2 = trace w1 @ [Updated (sr_id (baseRow (db w) a)) (lastValues (Inr mockResponse))]"
    by blast
  from getScreeningResult_updated[OF up lastValues_applicationId, of a] row
  have "getScreeningResult (db w2) a =
       Some (applyValues (lastValues (Inr mockResponse))
               ((baseRow (db w) a) \<lparr> aiStatus := Some Processing \<rparr>))"
    by simp
  with mock_complete run t1 t2 show ?thesis
    by simp
qed

lemma withoutStatus_updated:
  assumes "updateScreeningResult sid (noValues \<lparr> u_aiStatus := Some st \<rparr>) s = Inr s'"
  shows "withoutStatus s' = withoutStatus s"
  using assms
  by (auto simp: updateScreeningResult_def withoutStatus_def split: if_splits)

lemma tryBlock_returns:
  assumes found: "getApplication (db w) a = Some ctx"
    and res: "aiResponseOf openai (buildPrompt ctx) = Inr aiResponse"
    and u: "completeValues aiResponse = Inr u" and v: "validValues u"
  shows "fst (tryBlock openai a w) = Inr ()"
proof -
  from createOrFetch_row[OF found] obtain w1 where
    c: "createOrFetch a w = (Inr (baseRow (db w) a), w1)"
    by blast
  from callOpenAI_result[of openai "buildPrompt ctx" w1] res obtain w1' where
    call: "callOpenAI openai (buildPrompt ctx) w1 = (Inr aiResponse, w1')"
    by auto
  from storage_update_ok[OF v, of "sr_id (baseRow (db w) a)" w1'] completeValues_props[OF u]
  obtain w2 where "storage_updateScreeningResult (sr_id (baseRow (db w) a)) u w1' = (Inr (), w2)"
    by blast
  with found c call u getApplication_int32[OF found] show ?thesis
    by (simp add: tryBlock_def andThen_def storage_getApplication_def liftE_def)
qed

lemma tryBlock_throws:
  assumes found: "getApplication (db w) a = Some ctx"
    and throws: "fst (tryBlock openai a w) = Inl e"
  shows "lastValues (aiResponseOf openai (buildPrompt ctx))
           = noValues \<lparr> u_aiStatus := Some Failed \<rparr>"
proof (rule ccontr)
  assume "lastValues (aiResponseOf openai (buildPrompt ctx))
            \<noteq> noValues \<lparr> u_aiStatus := Some Failed \<rparr>"
  with lastValues_status[of "aiResponseOf openai (buildPrompt ctx)"]
  have "u_aiStatus (lastValues (aiResponseOf openai (buildPrompt ctx))) = Some Complete"
    by blast
  from lastValues_complete[OF this] obtain aiResponse where
    "aiResponseOf openai (buildPrompt ctx) = Inr aiResponse"
    "completeValues aiResponse = Inr (lastValues (aiResponseOf openai (buildPrompt ctx)))"
    by blast
  from tryBlock_returns[OF found this lastValues_valid] throws show False
    by simp
qed

lemma object_values_kept:
  assumes u: "completeValues (JObj kvs) = Inr u"
    and c: "aiStatus (applyValues (lastValues (Inr (JObj kvs))) base) = Some Complete"
  shows "lastValues (Inr (JObj kvs)) = u"
  using lastValues_status[of "Inr (JObj kvs)"] c u
  by (auto simp: lastValues_def split: if_splits)

lemma empty_object_accepted:
  assumes u: "completeValues (JObj kvs) = Inr u"
    and absent: "field (JObj kvs) ''rulesScore'' = None \<and>
        field (JObj kvs) ''semanticScore'' = None \<and>
        field (JObj kvs) ''finalScore'' = None \<and> field (JObj kvs) ''reasons'' = None \<and>
        field (JObj kvs) ''summary'' = None \<and> field (JObj kvs) ''questions'' = None"
  shows "lastValues (Inr (JObj kvs)) = u"
proof -
  from absent u have "validValues u"
    by (auto simp: completeValues_def validValues_def accepts_def)
  with u show ?thesis by (simp add: lastValues_def)
qed

lemma accepted_object:
  assumes u: "completeValues (JObj kvs) = Inr u"
    and taken: "accepts intColumn (field (JObj kvs) ''rulesScore'') \<and>
        accepts intColumn (field (JObj kvs) ''semanticScore'') \<and>
        accepts intColumn (field (JObj kvs) ''finalScore'') \<and>
        accepts jsonbColumn (field (JObj kvs) ''reasons'') \<and>
        accepts textColumn (field (JObj kvs) ''summary'') \<and>
        accepts jsonbColumn (field (JObj kvs) ''questions'')"
  shows "lastValues (Inr (JObj kvs)) = u"
proof -
  from taken u have "validValues u"
    by (auto simp: completeValues_def validValues_def)
  with u show ?thesis by (simp add: lastValues_def)
qed

section \<open>Runs cut at their awaits\<close>

text \<open>A run taken alone, step by step, is the run of \<open>processApplicationAI\<close>.\<close>

lemma steps_alone:
  "steps openai a 7 AtGetApplication w =
     (Settled (fst (processApplicationAI openai a w)), snd (processApplicationAI openai a w))"
  by (auto simp: eval_nat_numeral processApplicationAI_def tryCatch_def tryBlock_def
      catchBlock_def createOrFetch_def andThen_def ret_def storage_getApplication_def
      storage_getScreeningResult_def liftE_def
      split: prod.splits sum.splits option.splits if_splits)

section \<open>The scenarios, evaluated\<close>

lemmas run_defs = Let_def int32_def processApplicationAI_def tryCatch_def tryBlock_def andThen_def
  storage_getApplication_def getApplication_def getScreeningResult_def createOrFetch_def
  storage_getScreeningResult_def storage_createScreeningResult_def createScreeningResult_def
  noValues_def validValues_def accepts_def applyValues_def setColumn_def callOpenAI_def
  ret_def mockResponse_def liftE_def completeValues_def storage_updateScreeningResult_def
  updateScreeningResult_def catchBlock_def start_def scenarioA_def answering_def
  rejecting_def

lemma start_trace [simp]: "trace (start s) = []"
  by (simp add: start_def)

lemma scenarioD_found: "getApplication (db (start scenarioD)) 2 = Some scenarioD_ctx"
  by (simp add: start_def scenarioD_def scenarioD_ctx_def getApplication_def int32_def
      getScreeningResult_def)

lemma screenedA_found:
  "getApplication (db (start screenedA)) 1 = Some (scenarioA_ctx \<lparr> screening := Some mockRow \<rparr>)"
  by (simp add: start_def screenedA_def scenarioA_def scenarioA_ctx_def getApplication_def int32_def
      getScreeningResult_def mockRow_def)

lemma screenedA_row: "getScreeningResult (db (start screenedA)) 1 = Some mockRow"
  by (simp add: start_def screenedA_def getScreeningResult_def mockRow_def)

lemma failedA_found:
  "getApplication (db (start failedA)) 1
     = Some (scenarioA_ctx \<lparr> screening := Some (mockRow \<lparr> aiStatus := Some Failed \<rparr>) \<rparr>)"
  by (simp add: start_def failedA_def scenarioA_def scenarioA_ctx_def getApplication_def int32_def
      getScreeningResult_def mockRow_def)

lemma failedA_row:
  "getScreeningResult (db (start failedA)) 1 = Some (mockRow \<lparr> aiStatus := Some Failed \<rparr>)"
  by (simp add: start_def failedA_def getScreeningResult_def mockRow_def)

lemma failedA_rows: "rowsFor (db (start failedA)) 1 = [mockRow \<lparr> aiStatus := Some Failed \<rparr>]"
  by (simp add: start_def failedA_def rowsFor_def mockRow_def)

lemma mock_run_A:
  "processApplicationAI None 1 (start scenarioA) =
     (Inr (), \<lparr> db = screenedA,
                trace = [Inserted freshRow,
                         Updated 1 \<lparr> u_applicationId = None, u_rulesScore = Some (JNum 85),
                            u_semanticScore = Some (JNum 80), u_finalScore = Some (JNum 82),
                            u_reasons = Some (JArr [JStr ''Matches required skills'',
                                                    JStr ''Good experience'']),
                            u_aiSummary = Some (JStr ''Strong candidate with relevant experience.''),
                            u_aiQuestions = Some (JArr [JStr ''Describe your experience with React.'',
                                 JStr ''How do you handle state management?'']),
                            u_aiStatus = Some Complete \<rparr>] \<rparr>)"
  by (simp add: run_defs screenedA_def mockRow_def freshRow_def)

lemma mock_run_A_row:
  "processApplicationAI None 1 (start scenarioA)
     = (Inr (), snd (processApplicationAI None 1 (start scenarioA)))"
  "getScreeningResult (db (snd (processApplicationAI None 1 (start scenarioA)))) 1 = Some mockRow"
  using mock_run_A
  by (simp_all add: screenedA_def getScreeningResult_def mockRow_def)

lemma disagreeing_run:
  "\<exists>w'. processApplicationAI (answering disagreeing) 1 (start scenarioA) = (Inr (), w') \<and>
    getScreeningResult (db w') 1
     = Some \<lparr> sr_id = 1, applicationId = 1, rulesScore = Some 100, semanticScore = Some 80,
              finalScore = Some 5, reasons = None, aiSummary = None, aiQuestions = None,
              aiStatus = Some Complete \<rparr>"
  by (simp add: run_defs disagreeing_def)

lemma outOfRange_run:
  "\<exists>w'. processApplicationAI (answering outOfRange) 1 (start scenarioA) = (Inr (), w') \<and>
    getScreeningResult (db w') 1
     = Some \<lparr> sr_id = 1, applicationId = 1, rulesScore = Some 150, semanticScore = Some (- 7),
              finalScore = Some 1000, reasons = None, aiSummary = None, aiQuestions = None,
              aiStatus = Some Complete \<rparr>"
  by (simp add: run_defs outOfRange_def)

lemma partial_answer_rerun:
  "\<exists>w'. processApplicationAI (answering partialAnswer) 1 (start screenedA) = (Inr (), w')"
  by (simp add: run_defs screenedA_def mockRow_def partialAnswer_def)

lemma rejecting_throws: "fst (tryBlock rejecting 1 (start screenedA)) = Inl ProviderError"
  by (simp add: run_defs screenedA_def mockRow_def)

section \<open>Results\<close>

subsection \<open>C1: the persisted final score\<close>

text \<open>
  C1, as amended. For every run that reaches the success write, the persisted
  \<^verbatim>\<open>finalScore\<close> is the \<^verbatim>\<open>finalScore\<close> member of the evaluation response, stored
  as it is, whatever the \<^verbatim>\<open>rulesScore\<close> and \<^verbatim>\<open>semanticScore\<close> of that response
  are; the pipeline applies no aggregation. Without a provider the response is the
  fixed literal, whose \<^verbatim>\<open>finalScore\<close> 82 does equal
  \<^verbatim>\<open>round(0.4 * 85 + 0.6 * 80)\<close> of its own two component scores.
\<close>

theorem finalScore_read_from_response:
  assumes found: "getApplication (db w) a = Some ctx"
    and run: "processApplicationAI openai a w = (out, w')"
    and row: "getScreeningResult (db w') a = Some r"
    and complete: "aiStatus r = Some Complete"
  shows "(openai = None \<longrightarrow>
            rulesScore r = Some 85 \<and> semanticScore r = Some 80 \<and>
            finalScore r = Some (spec_finalScore 85 80)) \<and>
         (\<forall>create aiResponse k.
            openai = Some create \<longrightarrow> create (buildPrompt ctx) = Parsed aiResponse \<longrightarrow>
            field aiResponse ''finalScore'' = Some (JNum k) \<longrightarrow> finalScore r = Some k)"
proof -
  from complete_run[OF assms] obtain aiResponse u where
    res: "aiResponseOf openai (buildPrompt ctx) = Inr aiResponse" and
    u: "completeValues aiResponse = Inr u" and v: "validValues u" and
    r: "r = applyValues u ((baseRow (db w) a) \<lparr> aiStatus := Some Processing \<rparr>)"
    by blast
  have mock: "rulesScore r = Some 85 \<and> semanticScore r = Some 80 \<and>
            finalScore r = Some (spec_finalScore 85 80)" if "openai = None"
  proof -
    from that res have "aiResponse = mockResponse"
      by (simp add: aiResponseOf_def)
    with mock_values[of u] u r show ?thesis
      by (simp add: spec_finalScore_def)
  qed
  have prov: "finalScore r = Some k"
    if "openai = Some create" "create (buildPrompt ctx) = Parsed resp"
       "field resp ''finalScore'' = Some (JNum k)" for create resp k
  proof -
    from that res have "aiResponse = resp"
      by (simp add: aiResponseOf_def)
    with intColumn_stored(3)[OF u v] that(3) r show ?thesis
      by simp
  qed
  from mock prov show ?thesis by blast
qed

text \<open>
  Both cases on scenario A: a provider answering with \<open>disagreeing\<close>, and no provider.
\<close>

theorem finalScore_read_from_response_witness:
  "getApplication (db (start scenarioA)) 1 = Some scenarioA_ctx \<and>
   field disagreeing ''finalScore'' = Some (JNum 5) \<and>
   (\<exists>w' r. processApplicationAI (answering disagreeing) 1 (start scenarioA) = (Inr (), w') \<and>
      getScreeningResult (db w') 1 = Some r \<and> aiStatus r = Some Complete \<and>
      finalScore r = Some 5) \<and>
   (\<exists>w' r. processApplicationAI None 1 (start scenarioA) = (Inr (), w') \<and>
      getScreeningResult (db w') 1 = Some r \<and> aiStatus r = Some Complete \<and>
      finalScore r = Some (spec_finalScore 85 80))"
proof -
  have f: "field disagreeing ''finalScore'' = Some (JNum 5)"
    by (simp add: disagreeing_def)
  from disagreeing_run obtain w' where
    run: "processApplicationAI (answering disagreeing) 1 (start scenarioA) = (Inr (), w')" and
    row: "getScreeningResult (db w') 1
     = Some \<lparr> sr_id = 1, applicationId = 1, rulesScore = Some 100, semanticScore = Some 80,
              finalScore = Some 5, reasons = None, aiSummary = None, aiQuestions = None,
              aiStatus = Some Complete \<rparr>"
    by blast
  from finalScore_read_from_response[OF scenarioA_found run row] f
  have "finalScore \<lparr> sr_id = 1, applicationId = 1, rulesScore = Some 100,
              semanticScore = Some 80, finalScore = Some 5, reasons = None, aiSummary = None,
              aiQuestions = None, aiStatus = Some Complete \<rparr> = Some 5"
    by (simp add: answering_def)
  with run row
  have one: "\<exists>w' r. processApplicationAI (answering disagreeing) 1 (start scenarioA) = (Inr (), w') \<and>
      getScreeningResult (db w') 1 = Some r \<and> aiStatus r = Some Complete \<and>
      finalScore r = Some 5"
    by simp
  have mc: "aiStatus mockRow = Some Complete"
    by (simp add: mockRow_def)
  from finalScore_read_from_response[OF scenarioA_found mock_run_A_row mc]
  have "finalScore mockRow = Some (spec_finalScore 85 80)"
    by simp
  with mock_run_A_row mc
  have two: "\<exists>w' r. processApplicationAI None 1 (start scenarioA) = (Inr (), w') \<and>
      getScreeningResult (db w') 1 = Some r \<and> aiStatus r = Some Complete \<and>
      finalScore r = Some (spec_finalScore 85 80)"
    by blast
  from one two scenarioA_found f show ?thesis
    by blast
qed

text \<open>
  C1 as stated fails: on scenario A, with a provider whose answer carries
  \<^verbatim>\<open>rulesScore\<close> 100, \<^verbatim>\<open>semanticScore\<close> 80 and \<^verbatim>\<open>finalScore\<close> 5, the run
  completes and persists 5, where the aggregation of 100 and 80 is 88.
\<close>

theorem finalScore_not_aggregated:
  "getScreeningResult
     (db (snd (processApplicationAI (answering disagreeing) 1 (start scenarioA)))) 1
     = Some \<lparr> sr_id = 1, applicationId = 1, rulesScore = Some 100, semanticScore = Some 80,
              finalScore = Some 5, reasons = None, aiSummary = None, aiQuestions = None,
              aiStatus = Some Complete \<rparr> \<and>
   spec_finalScore 100 80 = 88"
  by (simp add: run_defs disagreeing_def spec_finalScore_def)

subsection \<open>C2: the rules score\<close>

text \<open>
  C2, as amended. The pipeline does not compute \<^verbatim>\<open>rulesScore\<close> from the candidate
  and job facts: on a run that completes, the persisted \<^verbatim>\<open>rulesScore\<close> is the
  \<^verbatim>\<open>rulesScore\<close> member of the evaluation response, stored as it is. Without a
  provider it is the constant 85 of the fixed literal, which lies in \<open>[0,100]\<close>, for
  every candidate and job, and the persisted \<^verbatim>\<open>finalScore\<close> is then 82; so scenario
  A without a provider gives \<^verbatim>\<open>rulesScore\<close> 85 and \<^verbatim>\<open>finalScore\<close> 82.
\<close>

theorem rulesScore_read_from_response:
  assumes found: "getApplication (db w) a = Some ctx"
    and run: "processApplicationAI openai a w = (out, w')"
    and row: "getScreeningResult (db w') a = Some r"
    and complete: "aiStatus r = Some Complete"
  shows "(openai = None \<longrightarrow> rulesScore r = Some 85 \<and> finalScore r = Some 82) \<and>
         (\<forall>create aiResponse n.
            openai = Some create \<longrightarrow> create (buildPrompt ctx) = Parsed aiResponse \<longrightarrow>
            field aiResponse ''rulesScore'' = Some (JNum n) \<longrightarrow> rulesScore r = Some n)"
proof -
  from complete_run[OF assms] obtain aiResponse u where
    res: "aiResponseOf openai (buildPrompt ctx) = Inr aiResponse" and
    u: "completeValues aiResponse = Inr u" and v: "validValues u" and
    r: "r = applyValues u ((baseRow (db w) a) \<lparr> aiStatus := Some Processing \<rparr>)"
    by blast
  have mock: "rulesScore r = Some 85 \<and> finalScore r = Some 82" if "openai = None"
  proof -
    from that res have "aiResponse = mockResponse"
      by (simp add: aiResponseOf_def)
    with mock_values[of u] u r show ?thesis
      by simp
  qed
  have prov: "rulesScore r = Some n"
    if "openai = Some create" "create (buildPrompt ctx) = Parsed resp"
       "field resp ''rulesScore'' = Some (JNum n)" for create resp n
  proof -
    from that res have "aiResponse = resp"
      by (simp add: aiResponseOf_def)
    with intColumn_stored(1)[OF u v] that(3) r show ?thesis
      by simp
  qed
  from mock prov show ?thesis by blast
qed

theorem rulesScore_read_from_response_witness:
  "getApplication (db (start scenarioA)) 1 = Some scenarioA_ctx \<and>
   field disagreeing ''rulesScore'' = Some (JNum 100) \<and>
   (\<exists>w' r. processApplicationAI None 1 (start scenarioA) = (Inr (), w') \<and>
      getScreeningResult (db w') 1 = Some r \<and> aiStatus r = Some Complete \<and>
      rulesScore r = Some 85 \<and> finalScore r = Some 82) \<and>
   (\<exists>w' r. processApplicationAI (answering disagreeing) 1 (start scenarioA) = (Inr (), w') \<and>
      getScreeningResult (db w') 1 = Some r \<and> aiStatus r = Some Complete \<and>
      rulesScore r = Some 100)"
proof -
  have f: "field disagreeing ''rulesScore'' = Some (JNum 100)"
    by (simp add: disagreeing_def)
  have mc: "aiStatus mockRow = Some Complete"
    by (simp add: mockRow_def)
  from rulesScore_read_from_response[OF scenarioA_found mock_run_A_row mc]
  have "rulesScore mockRow = Some 85 \<and> finalScore mockRow = Some 82"
    by simp
  with mock_run_A_row mc
  have one: "\<exists>w' r. processApplicationAI None 1 (start scenarioA) = (Inr (), w') \<and>
      getScreeningResult (db w') 1 = Some r \<and> aiStatus r = Some Complete \<and>
      rulesScore r = Some 85 \<and> finalScore r = Some 82"
    by blast
  from disagreeing_run obtain w' where
    run: "processApplicationAI (answering disagreeing) 1 (start scenarioA) = (Inr (), w')" and
    row: "getScreeningResult (db w') 1
     = Some \<lparr> sr_id = 1, applicationId = 1, rulesScore = Some 100, semanticScore = Some 80,
              finalScore = Some 5, reasons = None, aiSummary = None, aiQuestions = None,
              aiStatus = Some Complete \<rparr>"
    by blast
  from rulesScore_read_from_response[OF scenarioA_found run row] f
  have "rulesScore \<lparr> sr_id = 1, applicationId = 1, rulesScore = Some 100,
              semanticScore = Some 80, finalScore = Some 5, reasons = None, aiSummary = None,
              aiQuestions = None, aiStatus = Some Complete \<rparr> = Some 100"
    by (simp add: answering_def)
  with run row
  have two: "\<exists>w' r. processApplicationAI (answering disagreeing) 1 (start scenarioA) = (Inr (), w') \<and>
      getScreeningResult (db w') 1 = Some r \<and> aiStatus r = Some Complete \<and>
      rulesScore r = Some 100"
    by simp
  from one two scenarioA_found f show ?thesis
    by blast
qed

text \<open>
  C2 as stated fails on its own scenario: the job requires React and Node.js and five
  years, the candidate has both skills and six years, and the run without a provider
  persists \<^verbatim>\<open>rulesScore\<close> 85 and \<^verbatim>\<open>finalScore\<close> 82, not 100 and 88.
\<close>

theorem scenarioA_scores_85_and_82:
  "requiredSkills (job scenarioA_ctx) = Some [''React'', ''Node.js''] \<and>
   minYears (job scenarioA_ctx) = Some 5 \<and>
   map skills (jobSeekerProfiles scenarioA) = [Some [''React'', ''Node.js'', ''TypeScript'']] \<and>
   map experienceYears (jobSeekerProfiles scenarioA) = [Some 6] \<and>
   getApplication (db (start scenarioA)) 1 = Some scenarioA_ctx \<and>
   map_option rulesScore
     (getScreeningResult (db (snd (processApplicationAI None 1 (start scenarioA)))) 1)
     = Some (Some 85) \<and>
   map_option semanticScore
     (getScreeningResult (db (snd (processApplicationAI None 1 (start scenarioA)))) 1)
     = Some (Some 80) \<and>
   map_option finalScore
     (getScreeningResult (db (snd (processApplicationAI None 1 (start scenarioA)))) 1)
     = Some (Some 82)"
  by (simp add: run_defs scenarioA_ctx_def)

subsection \<open>C3: a run ends in a terminal status\<close>

text \<open>
  C3. The claim is that once the run for an existing application has settled, the
  screening result is \<^verbatim>\<open>"complete"\<close> or \<^verbatim>\<open>"failed"\<close> and is never left
  \<^verbatim>\<open>"processing"\<close>. The code does not keep it. Two triggers for the application
  of scenario A, which has no screening result yet, overlap: both runs find no row
  and both insert one. The provider call of the second run rejects; its catch block
  fetches the screening result by application, gets the row of the first run and
  marks that one failed. The first run then completes and overwrites its own row.
  Both runs have settled, and the row of the second run is \<^verbatim>\<open>"processing"\<close> with
  no run left to change it.
\<close>

theorem overlapping_runs_leave_processing:
  "(case overlapped (answering disagreeing, 1) (rejecting, 1) secondFailsFirstCompletes
           (AtGetApplication, AtGetApplication, start scenarioA) of
      (pa, pb, w) \<Rightarrow> (pa, pb, screeningResults (db w)))
   = (Settled (Inr ()), Settled (Inr ()),
      [\<lparr> sr_id = 1, applicationId = 1, rulesScore = Some 100, semanticScore = Some 80,
          finalScore = Some 5, reasons = None, aiSummary = None, aiQuestions = None,
          aiStatus = Some Complete \<rparr>,
       \<lparr> sr_id = 2, applicationId = 1, rulesScore = None, semanticScore = None,
          finalScore = None, reasons = None, aiSummary = None, aiQuestions = None,
          aiStatus = Some Processing \<rparr>])"
  by (simp add: secondFailsFirstCompletes_def bothCreate_def bothRead_def run_defs
      disagreeing_def)

text \<open>
  What does hold: a run that no other run overlaps, on an application that is found
  and has one screening result at most, returns and leaves that result complete or
  failed.
\<close>

lemma single_run_settles:
  assumes "getApplication (db w) a = Some ctx" and "length (rowsFor (db w) a) \<le> 1"
  shows "\<exists>w' r. processApplicationAI openai a w = (Inr (), w') \<and>
           getScreeningResult (db w') a = Some r \<and>
           (aiStatus r = Some Complete \<or> aiStatus r = Some Failed)"
proof -
  from processApplicationAI_row[OF assms(1), of openai] obtain w2 where
    run: "processApplicationAI openai a w = (Inr (), w2)" and
    row: "getScreeningResult (db w2) a =
       Some (applyValues (lastValues (aiResponseOf openai (buildPrompt ctx)))
               ((baseRow (db w) a) \<lparr> aiStatus := Some Processing \<rparr>))"
    by blast
  from lastValues_status[of "aiResponseOf openai (buildPrompt ctx)"]
  have "aiStatus (applyValues (lastValues (aiResponseOf openai (buildPrompt ctx)))
               ((baseRow (db w) a) \<lparr> aiStatus := Some Processing \<rparr>)) = Some Complete \<or>
        aiStatus (applyValues (lastValues (aiResponseOf openai (buildPrompt ctx)))
               ((baseRow (db w) a) \<lparr> aiStatus := Some Processing \<rparr>)) = Some Failed"
    by auto
  with run row show ?thesis by blast
qed

subsection \<open>C4: the row of an application is fetched or created\<close>

text \<open>
  C4. The claim is that a trigger on an application with a screening result moves
  that row to \<^verbatim>\<open>"processing"\<close> and never creates a second row, and that a trigger
  on an application without one creates exactly one row in \<^verbatim>\<open>"pending"\<close> and moves
  it to \<^verbatim>\<open>"processing"\<close> at once. The code does not do the second part: under the
  comment \<^verbatim>\<open>// Create pending result\<close> it inserts the row with
  \<^verbatim>\<open>aiStatus: "processing"\<close>, so on scenario A the step of lines 264 to 273 is one
  insert of a row that is \<^verbatim>\<open>"processing"\<close>, never \<^verbatim>\<open>"pending"\<close>, with no update
  after it. Nor is the row the only one when two triggers overlap: both runs read
  before either inserts, each inserts, and the application has two rows.
\<close>

theorem created_in_processing_not_pending:
  "createOrFetch 1 (start scenarioA) =
     (Inr freshRow,
      \<lparr> db = scenarioA \<lparr> screeningResults := [freshRow], screeningSeq := 2 \<rparr>,
        trace = [Inserted freshRow] \<rparr>) \<and>
   aiStatus freshRow = Some Processing \<and> aiStatus freshRow \<noteq> Some Pending \<and>
   (case overlapped (None, 1) (None, 1) bothCreate
           (AtGetApplication, AtGetApplication, start scenarioA) of
      (pa, pb, w) \<Rightarrow> (map sr_id (rowsFor (db w) 1), map aiStatus (rowsFor (db w) 1)))
   = ([1, 2], [Some Processing, Some Processing])"
  by (simp add: run_defs freshRow_def bothCreate_def bothRead_def rowsFor_def)

text \<open>
  What does hold, for a run that no other run overlaps, on an application that is
  found and has one screening result at most: a row that exists is the one marked
  \<^verbatim>\<open>"processing"\<close>, whatever its status was, by an update that sets nothing else,
  and no row is created; when none exists exactly one is created; and the rest of the
  run creates none.
\<close>

lemma retrigger_reuses_the_row:
  assumes found: "getApplication (db w) a = Some ctx"
    and step: "createOrFetch a w = (res, w1)"
    and run: "processApplicationAI openai a w = (out, w')"
    and single: "length (rowsFor (db w) a) \<le> 1"
  shows "(case getScreeningResult (db w) a of
            Some sc \<Rightarrow>
              res = Inr sc \<and>
              getScreeningResult (db w1) a = Some (sc \<lparr> aiStatus := Some Processing \<rparr>) \<and>
              trace w1 = trace w @
                [Updated (sr_id sc) (noValues \<lparr> u_aiStatus := Some Processing \<rparr>)] \<and>
              length (rowsFor (db w1) a) = length (rowsFor (db w) a)
          | None \<Rightarrow>
              (\<exists>row. res = Inr row \<and> aiStatus row = Some Processing \<and>
                     getScreeningResult (db w1) a = Some row \<and>
                     rowsFor (db w1) a = [row] \<and>
                     trace w1 = trace w @ [Inserted row])) \<and>
         length (rowsFor (db w') a) = length (rowsFor (db w1) a)"
proof -
  from processApplicationAI_found[OF found, of openai] step run obtain
    up: "updateScreeningResult (sr_id (baseRow (db w) a))
        (lastValues (aiResponseOf openai (buildPrompt ctx))) (db w1) = Inr (db w')"
    by auto
  have count: "length (rowsFor (db w') a) = length (rowsFor (db w1) a)"
    by (rule rowsFor_updated[OF up lastValues_applicationId])
  show ?thesis
  proof (cases "getScreeningResult (db w) a")
    case None
    from createOrFetch_created[OF None getApplication_known[OF found] getApplication_int32[OF found]] step
    obtain sc where res: "res = Inr sc"
      and cr: "createScreeningResult
               (noValues \<lparr> u_applicationId := Some a, u_aiStatus := Some Processing \<rparr>) (db w)
             = (Inr sc, db w1)"
      and tr: "trace w1 = trace w @ [Inserted sc]"
      by auto
    from created_row(1)[OF cr] have "aiStatus sc = Some Processing"
      by simp
    with res tr getScreeningResult_created[OF cr None] rowsFor_created[OF cr None] count None
    show ?thesis by simp
  next
    case (Some sc)
    from createOrFetch_fetched[OF Some getApplication_int32[OF found]] step
    have res: "res = Inr sc"
      and up1: "updateScreeningResult (sr_id sc) (noValues \<lparr> u_aiStatus := Some Processing \<rparr>) (db w)
             = Inr (db w1)"
      and tr: "trace w1 = trace w @ [Updated (sr_id sc) (noValues \<lparr> u_aiStatus := Some Processing \<rparr>)]"
      by auto
    have "getScreeningResult (db w1) a = Some (sc \<lparr> aiStatus := Some Processing \<rparr>)"
      using getScreeningResult_updated[OF up1, of a] Some by simp
    with res tr rowsFor_updated[OF up1, of a] count Some show ?thesis
      by simp
  qed
qed

text \<open>A re-trigger on a row that is \<^verbatim>\<open>"failed"\<close>: the row is reused, one row remains.\<close>

lemma retrigger_on_failed_row:
  "getApplication (db (start failedA)) 1
     = Some (scenarioA_ctx \<lparr> screening := Some (mockRow \<lparr> aiStatus := Some Failed \<rparr>) \<rparr>) \<and>
   getScreeningResult (db (start failedA)) 1 = Some (mockRow \<lparr> aiStatus := Some Failed \<rparr>) \<and>
   fst (createOrFetch 1 (start failedA)) = Inr (mockRow \<lparr> aiStatus := Some Failed \<rparr>) \<and>
   getScreeningResult (db (snd (createOrFetch 1 (start failedA)))) 1
     = Some (mockRow \<lparr> aiStatus := Some Processing \<rparr>) \<and>
   length (rowsFor (db (snd (processApplicationAI None 1 (start failedA)))) 1) = 1"
proof -
  have single: "length (rowsFor (db (start failedA)) 1) \<le> 1"
    by (simp add: failedA_rows)
  from retrigger_reuses_the_row[OF failedA_found _ _ single,
      of "fst (createOrFetch 1 (start failedA))" "snd (createOrFetch 1 (start failedA))" None
         "fst (processApplicationAI None 1 (start failedA))"
         "snd (processApplicationAI None 1 (start failedA))"]
    failedA_found failedA_row failedA_rows
  show ?thesis by simp
qed

subsection \<open>C5: a failed run changes the status only\<close>

text \<open>
  C5. Whenever the try block of a run throws after the application was found, whatever
  the exception, the run ends with the update \<^verbatim>\<open>{ aiStatus: "failed" }\<close> of the
  row of the application, which sets nothing else. If the application had a screening
  result before the run, the row is afterwards the row as it was before the run with
  the status \<^verbatim>\<open>"failed"\<close>: its three scores, reasons, summary and questions are those
  it had, also when they came from an earlier successful run; and nothing in the store
  differs from before the run except \<^verbatim>\<open>aiStatus\<close> values. If the row was created
  by this run, its six columns are \<^verbatim>\<open>null\<close> as at its creation.
\<close>

theorem failed_run_changes_status_only:
  assumes found: "getApplication (db w) a = Some ctx"
    and throws: "fst (tryBlock openai a w) = Inl e"
  shows "\<exists>w'. processApplicationAI openai a w = (Inr (), w') \<and>
           (case getScreeningResult (db w) a of
              Some sc \<Rightarrow>
                getScreeningResult (db w') a = Some (sc \<lparr> aiStatus := Some Failed \<rparr>) \<and>
                last (trace w') = Updated (sr_id sc) (noValues \<lparr> u_aiStatus := Some Failed \<rparr>) \<and>
                withoutStatus (db w') = withoutStatus (db w)
            | None \<Rightarrow>
                getScreeningResult (db w') a =
                  Some \<lparr> sr_id = screeningSeq (db w), applicationId = a, rulesScore = None,
                         semanticScore = None, finalScore = None, reasons = None,
                         aiSummary = None, aiQuestions = None, aiStatus = Some Failed \<rparr> \<and>
                last (trace w') =
                  Updated (screeningSeq (db w)) (noValues \<lparr> u_aiStatus := Some Failed \<rparr>))"
proof -
  let ?base = "baseRow (db w) a"
  note lv = tryBlock_throws[OF found throws]
  from processApplicationAI_found[OF found, of openai] obtain w1 w2 where
    c: "createOrFetch a w = (Inr ?base, w1)" and
    row: "getScreeningResult (db w1) a = Some (?base \<lparr> aiStatus := Some Processing \<rparr>)" and
    run: "processApplicationAI openai a w = (Inr (), w2)" and
    up: "updateScreeningResult (sr_id ?base) (noValues \<lparr> u_aiStatus := Some Failed \<rparr>) (db w1)
           = Inr (db w2)" and
    tr: "trace w2 = trace w1 @
        (case openai of None \<Rightarrow> [] | Some create \<Rightarrow> [Called (buildPrompt ctx)]) @
        [Updated (sr_id ?base) (noValues \<lparr> u_aiStatus := Some Failed \<rparr>)]"
    unfolding lv by blast
  from getScreeningResult_updated[OF up, of a] row
  have after: "getScreeningResult (db w2) a = Some (?base \<lparr> aiStatus := Some Failed \<rparr>)"
    by simp
  from tr
  have lst: "last (trace w2) = Updated (sr_id ?base) (noValues \<lparr> u_aiStatus := Some Failed \<rparr>)"
    by simp
  show ?thesis
  proof (cases "getScreeningResult (db w) a")
    case None
    then have "?base = \<lparr> sr_id = screeningSeq (db w), applicationId = a, rulesScore = None,
                         semanticScore = None, finalScore = None, reasons = None,
                         aiSummary = None, aiQuestions = None, aiStatus = Some Processing \<rparr>"
      by (simp add: baseRow_def)
    with after lst run None show ?thesis
      by simp
  next
    case (Some sc)
    then have base: "?base = sc"
      by (simp add: baseRow_def)
    from createOrFetch_fetched[OF Some getApplication_int32[OF found]] c
    have up1: "updateScreeningResult (sr_id sc) (noValues \<lparr> u_aiStatus := Some Processing \<rparr>) (db w)
               = Inr (db w1)"
      by auto
    from withoutStatus_updated[OF up[unfolded base]] withoutStatus_updated[OF up1]
    have "withoutStatus (db w2) = withoutStatus (db w)"
      by simp
    with after lst run Some base show ?thesis
      by simp
  qed
qed

text \<open>
  Scenario C of the specification: after a successful run on scenario A, the provider
  call of the next run rejects; the scores 85, 80 and 82 and the texts stay.
\<close>

theorem failed_run_changes_status_only_witness:
  "getApplication (db (start screenedA)) 1 = Some (scenarioA_ctx \<lparr> screening := Some mockRow \<rparr>) \<and>
   getScreeningResult (db (start screenedA)) 1 = Some mockRow \<and>
   fst (tryBlock rejecting 1 (start screenedA)) = Inl ProviderError \<and>
   (\<exists>w'. processApplicationAI rejecting 1 (start screenedA) = (Inr (), w') \<and>
      getScreeningResult (db w') 1 =
        Some \<lparr> sr_id = 1, applicationId = 1, rulesScore = Some 85, semanticScore = Some 80,
               finalScore = Some 82,
               reasons = Some (JArr [JStr ''Matches required skills'', JStr ''Good experience'']),
               aiSummary = Some ''Strong candidate with relevant experience.'',
               aiQuestions = Some (JArr [JStr ''Describe your experience with React.'',
                                 JStr ''How do you handle state management?'']),
               aiStatus = Some Failed \<rparr> \<and>
      last (trace w') = Updated 1 (noValues \<lparr> u_aiStatus := Some Failed \<rparr>) \<and>
      withoutStatus (db w') = withoutStatus screenedA)"
proof -
  from failed_run_changes_status_only[OF screenedA_found rejecting_throws]
  obtain w' where "processApplicationAI rejecting 1 (start screenedA) = (Inr (), w')"
    "getScreeningResult (db w') 1 = Some (mockRow \<lparr> aiStatus := Some Failed \<rparr>)"
    "last (trace w') = Updated (sr_id mockRow) (noValues \<lparr> u_aiStatus := Some Failed \<rparr>)"
    "withoutStatus (db w') = withoutStatus (db (start screenedA))"
    unfolding screenedA_row by auto
  then have "\<exists>w'. processApplicationAI rejecting 1 (start screenedA) = (Inr (), w') \<and>
      getScreeningResult (db w') 1 =
        Some \<lparr> sr_id = 1, applicationId = 1, rulesScore = Some 85, semanticScore = Some 80,
               finalScore = Some 82,
               reasons = Some (JArr [JStr ''Matches required skills'', JStr ''Good experience'']),
               aiSummary = Some ''Strong candidate with relevant experience.'',
               aiQuestions = Some (JArr [JStr ''Describe your experience with React.'',
                                 JStr ''How do you handle state management?'']),
               aiStatus = Some Failed \<rparr> \<and>
      last (trace w') = Updated 1 (noValues \<lparr> u_aiStatus := Some Failed \<rparr>) \<and>
      withoutStatus (db w') = withoutStatus screenedA"
    by (simp add: mockRow_def start_def)
  with screenedA_found screenedA_row rejecting_throws show ?thesis
    by blast
qed

subsection \<open>C6: an application that is not found\<close>

text \<open>
  C6. The claim is that a run on an identifier that resolves to no application writes
  nothing and returns without throwing. The code writes nothing, but it does not
  always return. The input schema of the trigger lets any number through, and for
  2147483648, which no key can equal, the database rejects the query of
  \<^verbatim>\<open>getApplication\<close>; the catch block then calls \<^verbatim>\<open>getScreeningResult\<close> with
  the same identifier, outside any \<^verbatim>\<open>try\<close>, the database rejects that query too,
  and the promise of \<^verbatim>\<open>processApplicationAI\<close> rejects.
\<close>

theorem out_of_range_identifier_rejects:
  "parseInput (JObj [(''applicationId'', JNum 2147483648)]) = Inr 2147483648 \<and>
   getApplication (db (start scenarioA)) 2147483648 = None \<and>
   processApplicationAI None 2147483648 (start scenarioA) = (Inl DbError, start scenarioA) \<and>
   processApplicationAI rejecting 2147483648 (start scenarioA) = (Inl DbError, start scenarioA)"
  by (simp add: parseInput_def getApplication_def int32_def processApplicationAI_def
      tryCatch_def tryBlock_def catchBlock_def andThen_def storage_getApplication_def
      storage_getScreeningResult_def)

text \<open>
  What does hold: no run on an identifier that resolves to no application writes
  anything, and if the identifier is a 32-bit integer the run returns normally, with
  the store and the trace as they were. An application whose job or seeker row is
  missing is not found either, as in scenario B of the specification.
\<close>

lemma not_found_writes_nothing:
  assumes "getApplication (db w) a = None" and "int32 a"
  shows "processApplicationAI openai a w = (Inr (), w)"
  using assms
  by (simp add: processApplicationAI_def tryCatch_def tryBlock_def andThen_def
      storage_getApplication_def ret_def)

lemma out_of_range_writes_nothing:
  assumes "\<not> int32 a"
  shows "processApplicationAI openai a w = (Inl DbError, w)"
  using assms
  by (simp add: processApplicationAI_def tryCatch_def tryBlock_def catchBlock_def andThen_def
      storage_getApplication_def storage_getScreeningResult_def)

lemma missing_job_or_seeker_writes_nothing:
  "find (\<lambda>j. j_id j = 7) (jobs scenarioB) = None \<and>
   getApplication (db (start scenarioB)) 1 = None \<and>
   processApplicationAI rejecting 1 (start scenarioB) = (Inr (), start scenarioB) \<and>
   find (\<lambda>u. u_id u = 9) (users scenarioNoSeeker) = None \<and>
   getApplication (db (start scenarioNoSeeker)) 1 = None \<and>
   processApplicationAI rejecting 1 (start scenarioNoSeeker) = (Inr (), start scenarioNoSeeker)"
proof -
  have b: "getApplication (db (start scenarioB)) 1 = None"
    by (rule scenarioB_not_found)
  have n: "getApplication (db (start scenarioNoSeeker)) 1 = None"
    by (simp add: start_def scenarioNoSeeker_def scenarioA_def getApplication_def int32_def)
  have r: "int32 1"
    by (simp add: int32_def)
  from not_found_writes_nothing[OF b r, of rejecting] not_found_writes_nothing[OF n r, of rejecting]
    b n
  show ?thesis
    by (simp add: scenarioB_def scenarioNoSeeker_def scenarioA_def)
qed

subsection \<open>C7: members missing from the response\<close>

text \<open>
  C7, as amended. When the provider's response parses to a JSON object (or the content
  is empty, which the code reads as the empty object) and lacks an expected member,
  the pipeline substitutes nothing for it: the member is left out of the update, and
  on the run that completes the column of each missing member keeps the value it had
  before the run (\<^verbatim>\<open>null\<close> for a row created by this run, the value of the
  earlier run on a re-trigger). A missing member never makes the run fail: the run
  still completes whenever each member that is present is a value its column takes,
  and so in particular when all six are missing.
\<close>

theorem missing_fields_keep_columns:
  assumes found: "getApplication (db w) a = Some ctx"
    and run: "processApplicationAI (Some create) a w = (out, w')"
    and resp: "create (buildPrompt ctx) = Parsed (JObj kvs) \<or>
               create (buildPrompt ctx) = NoContent \<and> kvs = []"
  shows "\<exists>r. getScreeningResult (db w') a = Some r \<and>
           (aiStatus r = Some Complete \<longrightarrow>
              (field (JObj kvs) ''rulesScore'' = None \<longrightarrow>
                 rulesScore r = rulesScore (baseRow (db w) a)) \<and>
              (field (JObj kvs) ''semanticScore'' = None \<longrightarrow>
                 semanticScore r = semanticScore (baseRow (db w) a)) \<and>
              (field (JObj kvs) ''finalScore'' = None \<longrightarrow>
                 finalScore r = finalScore (baseRow (db w) a)) \<and>
              (field (JObj kvs) ''reasons'' = None \<longrightarrow>
                 reasons r = reasons (baseRow (db w) a)) \<and>
              (field (JObj kvs) ''summary'' = None \<longrightarrow>
                 aiSummary r = aiSummary (baseRow (db w) a)) \<and>
              (field (JObj kvs) ''questions'' = None \<longrightarrow>
                 aiQuestions r = aiQuestions (baseRow (db w) a))) \<and>
           (field (JObj kvs) ''rulesScore'' = None \<and> field (JObj kvs) ''semanticScore'' = None \<and>
            field (JObj kvs) ''finalScore'' = None \<and> field (JObj kvs) ''reasons'' = None \<and>
            field (JObj kvs) ''summary'' = None \<and> field (JObj kvs) ''questions'' = None
            \<longrightarrow> aiStatus r = Some Complete) \<and>
           (accepts intColumn (field (JObj kvs) ''rulesScore'') \<and>
            accepts intColumn (field (JObj kvs) ''semanticScore'') \<and>
            accepts intColumn (field (JObj kvs) ''finalScore'') \<and>
            accepts jsonbColumn (field (JObj kvs) ''reasons'') \<and>
            accepts textColumn (field (JObj kvs) ''summary'') \<and>
            accepts jsonbColumn (field (JObj kvs) ''questions'')
            \<longrightarrow> aiStatus r = Some Complete)"
proof -
  let ?base = "(baseRow (db w) a) \<lparr> aiStatus := Some Processing \<rparr>"
  let ?r = "applyValues (lastValues (Inr (JObj kvs))) ?base"
  from resp have res: "aiResponseOf (Some create) (buildPrompt ctx) = Inr (JObj kvs)"
    by (auto simp: aiResponseOf_def)
  obtain u where u: "completeValues (JObj kvs) = Inr u"
    by (simp add: completeValues_def)
  from processApplicationAI_row[OF found, of "Some create"] obtain w2 where
    "processApplicationAI (Some create) a w = (Inr (), w2)"
    "getScreeningResult (db w2) a =
       Some (applyValues (lastValues (aiResponseOf (Some create) (buildPrompt ctx))) ?base)"
    by blast
  with run res have row: "getScreeningResult (db w') a = Some ?r"
    by simp
  from completeValues_props[OF u] have st: "u_aiStatus u = Some Complete"
    by simp
  have A: "(field (JObj kvs) ''rulesScore'' = None \<longrightarrow>
              rulesScore ?r = rulesScore (baseRow (db w) a)) \<and>
           (field (JObj kvs) ''semanticScore'' = None \<longrightarrow>
              semanticScore ?r = semanticScore (baseRow (db w) a)) \<and>
           (field (JObj kvs) ''finalScore'' = None \<longrightarrow>
              finalScore ?r = finalScore (baseRow (db w) a)) \<and>
           (field (JObj kvs) ''reasons'' = None \<longrightarrow> reasons ?r = reasons (baseRow (db w) a)) \<and>
           (field (JObj kvs) ''summary'' = None \<longrightarrow>
              aiSummary ?r = aiSummary (baseRow (db w) a)) \<and>
           (field (JObj kvs) ''questions'' = None \<longrightarrow>
              aiQuestions ?r = aiQuestions (baseRow (db w) a))"
    if c: "aiStatus ?r = Some Complete"
    unfolding object_values_kept[OF u c] using absent_kept[OF u, of ?base] by simp
  have B: "aiStatus ?r = Some Complete"
    if "field (JObj kvs) ''rulesScore'' = None \<and> field (JObj kvs) ''semanticScore'' = None \<and>
        field (JObj kvs) ''finalScore'' = None \<and> field (JObj kvs) ''reasons'' = None \<and>
        field (JObj kvs) ''summary'' = None \<and> field (JObj kvs) ''questions'' = None"
    unfolding empty_object_accepted[OF u that] using st by simp
  have C: "aiStatus ?r = Some Complete"
    if "accepts intColumn (field (JObj kvs) ''rulesScore'') \<and>
        accepts intColumn (field (JObj kvs) ''semanticScore'') \<and>
        accepts intColumn (field (JObj kvs) ''finalScore'') \<and>
        accepts jsonbColumn (field (JObj kvs) ''reasons'') \<and>
        accepts textColumn (field (JObj kvs) ''summary'') \<and>
        accepts jsonbColumn (field (JObj kvs) ''questions'')"
    unfolding accepted_object[OF u that] using st by simp
  show ?thesis
  proof (intro exI conjI impI)
    show "getScreeningResult (db w') a = Some ?r" by (rule row)
  qed (use A B C in \<open>simp_all\<close>)
qed

text \<open>
  A re-trigger on scenario A after a successful run, the provider now answering with
  \<open>partialAnswer\<close>, which lacks four members: the run completes, and the four columns
  keep the values of the earlier run.
\<close>

theorem missing_fields_keep_columns_witness:
  "getApplication (db (start screenedA)) 1 = Some (scenarioA_ctx \<lparr> screening := Some mockRow \<rparr>) \<and>
   partialAnswer = JObj [(''semanticScore'', JNum 70), (''summary'', JStr ''Fair.'')] \<and>
   (\<exists>w' r. processApplicationAI (answering partialAnswer) 1 (start screenedA) = (Inr (), w') \<and>
      getScreeningResult (db w') 1 = Some r \<and> aiStatus r = Some Complete \<and>
      rulesScore r = Some 85 \<and> finalScore r = Some 82 \<and>
      reasons r = Some (JArr [JStr ''Matches required skills'', JStr ''Good experience'']) \<and>
      aiQuestions r = Some (JArr [JStr ''Describe your experience with React.'',
                                  JStr ''How do you handle state management?'']))"
proof -
  from partial_answer_rerun obtain w' where
    run: "processApplicationAI
            (Some (\<lambda>prompt. Parsed (JObj [(''semanticScore'', JNum 70), (''summary'', JStr ''Fair.'')])))
            1 (start screenedA) = (Inr (), w')"
    by (auto simp: answering_def partialAnswer_def)
  have base: "baseRow (db (start screenedA)) 1 = mockRow"
    by (simp add: baseRow_def screenedA_row)
  from missing_fields_keep_columns[OF screenedA_found run,
      of "[(''semanticScore'', JNum 70), (''summary'', JStr ''Fair.'')]"]
  obtain r where "getScreeningResult (db w') 1 = Some r" "aiStatus r = Some Complete"
      "rulesScore r = rulesScore mockRow" "finalScore r = finalScore mockRow"
      "reasons r = reasons mockRow" "aiQuestions r = aiQuestions mockRow"
    unfolding base by (auto simp: accepts_def int32_def)
  with run screenedA_found show ?thesis
    by (auto simp: mockRow_def answering_def partialAnswer_def)
qed

text \<open>
  C7 as stated fails: on scenario A, with a provider answering with the empty object,
  the run completes and the row it leaves has \<^verbatim>\<open>null\<close> in all six columns: no score
  is 0, \<^verbatim>\<open>reasons\<close> and \<^verbatim>\<open>aiQuestions\<close> are not empty arrays and
  \<^verbatim>\<open>aiSummary\<close> is not the empty string.
\<close>

theorem missing_fields_not_defaulted:
  "getScreeningResult
     (db (snd (processApplicationAI (answering (JObj [])) 1 (start scenarioA)))) 1
     = Some \<lparr> sr_id = 1, applicationId = 1, rulesScore = None, semanticScore = None,
              finalScore = None, reasons = None, aiSummary = None, aiQuestions = None,
              aiStatus = Some Complete \<rparr>"
  by (simp add: run_defs)

subsection \<open>C8: the range of the persisted scores\<close>

text \<open>
  C8, as amended. A score persisted by the pipeline is an integer, but nothing keeps
  it in \<open>[0,100]\<close>: on a run that completes with a provider whose response carries
  integers for \<^verbatim>\<open>rulesScore\<close>, \<^verbatim>\<open>semanticScore\<close> and \<^verbatim>\<open>finalScore\<close>, the three
  columns hold exactly these integers, each of which is a 32-bit integer (what the
  column takes) and is otherwise unconstrained. The scores are in \<open>[0,100]\<close> when
  those of the response are.
\<close>

theorem scores_stored_unclamped:
  assumes found: "getApplication (db w) a = Some ctx"
    and run: "processApplicationAI (Some create) a w = (out, w')"
    and row: "getScreeningResult (db w') a = Some r"
    and complete: "aiStatus r = Some Complete"
    and resp: "create (buildPrompt ctx) = Parsed aiResponse"
    and n: "field aiResponse ''rulesScore'' = Some (JNum n)"
    and m: "field aiResponse ''semanticScore'' = Some (JNum m)"
    and k: "field aiResponse ''finalScore'' = Some (JNum k)"
  shows "rulesScore r = Some n \<and> semanticScore r = Some m \<and> finalScore r = Some k \<and>
         - 2147483648 \<le> n \<and> n \<le> 2147483647 \<and>
         - 2147483648 \<le> m \<and> m \<le> 2147483647 \<and>
         - 2147483648 \<le> k \<and> k \<le> 2147483647"
proof -
  from complete_run[OF found run row complete] resp obtain u where
    u: "completeValues aiResponse = Inr u" and v: "validValues u" and
    r: "r = applyValues u ((baseRow (db w) a) \<lparr> aiStatus := Some Processing \<rparr>)"
    by (auto simp: aiResponseOf_def)
  from u v n m k have "- 2147483648 \<le> n \<and> n \<le> 2147483647 \<and>
         - 2147483648 \<le> m \<and> m \<le> 2147483647 \<and>
         - 2147483648 \<le> k \<and> k \<le> 2147483647"
    by (auto simp: completeValues_def validValues_def accepts_def split: if_splits)
  with intColumn_stored[OF u v] n m k r show ?thesis
    by simp
qed

theorem scores_stored_unclamped_witness:
  "getApplication (db (start scenarioA)) 1 = Some scenarioA_ctx \<and>
   field outOfRange ''rulesScore'' = Some (JNum 150) \<and>
   field outOfRange ''semanticScore'' = Some (JNum (- 7)) \<and>
   field outOfRange ''finalScore'' = Some (JNum 1000) \<and>
   (\<exists>w' r. processApplicationAI (answering outOfRange) 1 (start scenarioA) = (Inr (), w') \<and>
      getScreeningResult (db w') 1 = Some r \<and> aiStatus r = Some Complete \<and>
      rulesScore r = Some 150 \<and> semanticScore r = Some (- 7) \<and> finalScore r = Some 1000)"
proof -
  have f: "field outOfRange ''rulesScore'' = Some (JNum 150)"
    "field outOfRange ''semanticScore'' = Some (JNum (- 7))"
    "field outOfRange ''finalScore'' = Some (JNum 1000)"
    by (simp_all add: outOfRange_def)
  from outOfRange_run obtain w' r where
    run: "processApplicationAI (Some (\<lambda>prompt. Parsed outOfRange)) 1 (start scenarioA) = (Inr (), w')" and
    row: "getScreeningResult (db w') 1 = Some r" and c: "aiStatus r = Some Complete"
    by (auto simp: answering_def)
  from scores_stored_unclamped[OF scenarioA_found run row c _ f]
  have "rulesScore r = Some 150 \<and> semanticScore r = Some (- 7) \<and> finalScore r = Some 1000"
    by simp
  with run row c scenarioA_found f show ?thesis
    by (auto simp: answering_def)
qed

text \<open>
  C8 as stated fails: on scenario A, with a provider whose answer carries the scores
  150, -7 and 1000, the run completes and persists them.
\<close>

theorem scores_out_of_range:
  "getScreeningResult
     (db (snd (processApplicationAI (answering outOfRange) 1 (start scenarioA)))) 1
     = Some \<lparr> sr_id = 1, applicationId = 1, rulesScore = Some 150, semanticScore = Some (- 7),
              finalScore = Some 1000, reasons = None, aiSummary = None, aiQuestions = None,
              aiStatus = Some Complete \<rparr> \<and>
   \<not> (150::int) \<le> 100 \<and> \<not> 0 \<le> (- 7::int)"
  by (simp add: run_defs outOfRange_def)

subsection \<open>C9: without a provider the evaluation is constant\<close>

text \<open>
  C9. When no provider is configured, any two runs, on the same or on different
  applications and stores and so whatever the candidate and job facts, persist the
  same \<^verbatim>\<open>semanticScore\<close>, summary and questions, those of the fixed literal, and
  neither run sends a request to the provider.
\<close>

theorem mock_mode_is_constant:
  assumes "getApplication (db w1) a1 = Some ctx1"
    and "getApplication (db w2) a2 = Some ctx2"
    and "processApplicationAI None a1 w1 = (out1, w1')"
    and "processApplicationAI None a2 w2 = (out2, w2')"
  shows "\<exists>r1 r2.
           getScreeningResult (db w1') a1 = Some r1 \<and> getScreeningResult (db w2') a2 = Some r2 \<and>
           semanticScore r1 = Some 80 \<and> semanticScore r2 = Some 80 \<and>
           aiSummary r1 = Some ''Strong candidate with relevant experience.'' \<and>
           aiSummary r2 = aiSummary r1 \<and>
           aiQuestions r1 = Some (JArr [JStr ''Describe your experience with React.'',
                                        JStr ''How do you handle state management?'']) \<and>
           aiQuestions r2 = aiQuestions r1 \<and>
           filter isCall (trace w1') = filter isCall (trace w1) \<and>
           filter isCall (trace w2') = filter isCall (trace w2)"
proof -
  have one: "\<exists>r. getScreeningResult (db w') a = Some r \<and>
           semanticScore r = Some 80 \<and>
           aiSummary r = Some ''Strong candidate with relevant experience.'' \<and>
           aiQuestions r = Some (JArr [JStr ''Describe your experience with React.'',
                                        JStr ''How do you handle state management?'']) \<and>
           filter isCall (trace w') = filter isCall (trace w)"
    if found: "getApplication (db w) a = Some ctx"
      and run: "processApplicationAI None a w = (out, w')"
    for w a ctx out w'
  proof -
    from mock_run_completes[OF found] run obtain r where
      row: "getScreeningResult (db w') a = Some r" and c: "aiStatus r = Some Complete" and
      tr: "trace w' = trace w @
             [case getScreeningResult (db w) a of
                None \<Rightarrow> Inserted (baseRow (db w) a)
              | Some sc \<Rightarrow> Updated (sr_id sc) (noValues \<lparr> u_aiStatus := Some Processing \<rparr>),
              Updated (sr_id (baseRow (db w) a)) (lastValues (Inr mockResponse))]"
      by auto
    from complete_run[OF found run row c] obtain u where
      u: "completeValues mockResponse = Inr u" and
      r: "r = applyValues u ((baseRow (db w) a) \<lparr> aiStatus := Some Processing \<rparr>)"
      by (auto simp: aiResponseOf_def)
    have "filter isCall (trace w') = filter isCall (trace w)"
      unfolding tr by (simp split: option.splits)
    with mock_values[OF u] r row show ?thesis
      by simp
  qed
  from one[OF assms(1,3)] one[OF assms(2,4)] show ?thesis
    by auto
qed

text \<open>Scenario A and an application with quite different facts.\<close>

theorem mock_mode_is_constant_witness:
  "getApplication (db (start scenarioA)) 1 = Some scenarioA_ctx \<and>
   getApplication (db (start scenarioD)) 2 = Some scenarioD_ctx \<and>
   (\<exists>r1 r2.
      getScreeningResult (db (snd (processApplicationAI None 1 (start scenarioA)))) 1 = Some r1 \<and>
      getScreeningResult (db (snd (processApplicationAI None 2 (start scenarioD)))) 2 = Some r2 \<and>
      semanticScore r1 = Some 80 \<and> semanticScore r2 = Some 80 \<and>
      aiSummary r2 = aiSummary r1 \<and> aiQuestions r2 = aiQuestions r1) \<and>
   filter isCall (trace (snd (processApplicationAI None 1 (start scenarioA)))) = [] \<and>
   filter isCall (trace (snd (processApplicationAI None 2 (start scenarioD)))) = []"
proof -
  have r1: "processApplicationAI None 1 (start scenarioA) =
      (fst (processApplicationAI None 1 (start scenarioA)),
       snd (processApplicationAI None 1 (start scenarioA)))"
    and r2: "processApplicationAI None 2 (start scenarioD) =
      (fst (processApplicationAI None 2 (start scenarioD)),
       snd (processApplicationAI None 2 (start scenarioD)))"
    by simp_all
  from mock_mode_is_constant[OF scenarioA_found scenarioD_found r1 r2]
    scenarioA_found scenarioD_found
  show ?thesis
    by (simp only: start_trace filter.simps) blast
qed

subsection \<open>C10: the answer of the manual trigger\<close>

text \<open>
  C10. For every request body that carries a numeric \<^verbatim>\<open>applicationId\<close>, the handler
  of \<^verbatim>\<open>POST /api/ai/process\<close> answers with status 200 and the body
  \<^verbatim>\<open>{ message: "Processing started", status: "pending" }\<close>, whatever the store holds
  and whatever the provider: the answer is the same for an identifier that matches no
  application as for one that does.
\<close>

theorem trigger_always_answers_pending:
  assumes "parseInput reqBody = Inr appId"
  shows "fst (aiProcessHandler openai reqBody w) =
           Inr \<lparr> status = 200,
                  body = JObj [(''message'', JStr ''Processing started''),
                               (''status'', JStr ''pending'')] \<rparr>"
  using assms by (simp add: aiProcessHandler_def split_beta)

text \<open>On scenario A, application 1 exists and application 99 does not.\<close>

theorem trigger_always_answers_pending_witness:
  "parseInput (JObj [(''applicationId'', JNum 1)]) = Inr 1 \<and>
   parseInput (JObj [(''applicationId'', JNum 99)]) = Inr 99 \<and>
   getApplication (db (start scenarioA)) 1 = Some scenarioA_ctx \<and>
   getApplication (db (start scenarioA)) 99 = None \<and>
   fst (aiProcessHandler None (JObj [(''applicationId'', JNum 1)]) (start scenarioA)) =
     Inr \<lparr> status = 200, body = JObj [(''message'', JStr ''Processing started''),
                               (''status'', JStr ''pending'')] \<rparr> \<and>
   fst (aiProcessHandler None (JObj [(''applicationId'', JNum 99)]) (start scenarioA)) =
     fst (aiProcessHandler None (JObj [(''applicationId'', JNum 1)]) (start scenarioA))"
proof -
  have p1: "parseInput (JObj [(''applicationId'', JNum 1)]) = Inr 1"
    and p2: "parseInput (JObj [(''applicationId'', JNum 99)]) = Inr 99"
    by (simp_all add: parseInput_def)
  have nf: "getApplication (db (start scenarioA)) 99 = None"
    by (simp add: start_def scenarioA_def getApplication_def int32_def)
  from trigger_always_answers_pending[OF p1, of None "start scenarioA"]
       trigger_always_answers_pending[OF p2, of None "start scenarioA"]
       p1 p2 nf scenarioA_found
  show ?thesis by simp
qed

end
